theory Spec2Isabelle
  imports Main "HOL-Library.Word"
begin

section \<open>Types used by the contract\<close>

text \<open>
  The contract \<^verbatim>\<open>evt_contract.cpp\<close> includes its types from headers that are
  not part of the source. The declarations below give them the shape the
  contract's code relies on: the fields it reads and writes, and the integer
  widths it names.
  \<^item> A 128-bit name is modelled by the characters it encodes; \<^verbatim>\<open>empty()\<close>
    is the empty string.
  \<^item> A group id is a 128-bit value; \<^verbatim>\<open>empty()\<close> is the value zero.
  \<^item> A public key is an opaque value with a total order.
  \<^item> A weight is a 16-bit unsigned integer, a threshold a 32-bit one (the
    accumulator of \<^verbatim>\<open>validate\<close> is declared \<^verbatim>\<open>uint32_t\<close>).
  \<^item> An asset amount is a 64-bit signed integer.
\<close>

type_synonym name128 = string
type_synonym group_id = "128 word"
type_synonym public_key_type = nat
type_synonym user_list = "public_key_type list"
type_synonym weight_type = "16 word"
type_synonym uint32_t = "32 word"
type_synonym int64_t = "64 word"

record key_weight =
  key :: public_key_type
  weight :: weight_type

record group_weight =
  id :: group_id
  weight :: weight_type

record permission_def =
  name :: string
  threshold :: uint32_t
  groups :: "group_weight list"

record group_def =
  id :: group_id
  key :: public_key_type
  threshold :: uint32_t
  keys :: "key_weight list"

section \<open>Validation primitives\<close>

text \<open>
  \<^verbatim>\<open>validate(const permission_def&)\<close>: the loop over \<^verbatim>\<open>permission.groups\<close>,
  with the pointer \<^verbatim>\<open>prev\<close> (\<open>None\<close> is \<^verbatim>\<open>nullptr\<close>) and the running
  \<^verbatim>\<open>total_weight\<close>. The loop yields \<open>None\<close> where the code returns false from
  inside the loop, and the accumulated total otherwise. The addition is the
  32-bit one: the weight is widened, the sum wraps.
\<close>

fun validate_permission_loop ::
  "group_weight option \<Rightarrow> uint32_t \<Rightarrow> group_weight list \<Rightarrow> uint32_t option" where
  "validate_permission_loop prev total_weight [] = Some total_weight"
| "validate_permission_loop prev total_weight (gw # gws) =
     (if (case prev of None \<Rightarrow> False | Some p \<Rightarrow> group_weight.id p \<le> group_weight.id gw)
      then None
      else if group_weight.weight gw = 0 then None
      else validate_permission_loop (Some gw) (total_weight + ucast (group_weight.weight gw)) gws)"

definition validate_permission :: "permission_def \<Rightarrow> bool" where
  "validate_permission permission =
     (case validate_permission_loop None 0 (permission_def.groups permission) of
        None \<Rightarrow> False
      | Some total_weight \<Rightarrow> permission_def.threshold permission \<le> total_weight)"

text \<open>
  The template \<^verbatim>\<open>validate(const T&)\<close> reads \<^verbatim>\<open>group.threshold\<close> and
  \<^verbatim>\<open>group.keys\<close> only; it is instantiated at \<^verbatim>\<open>group_def\<close> and at
  \<^verbatim>\<open>updategroup\<close>. The body is modelled once, on these two fields.
\<close>

fun validate_keys_loop ::
  "key_weight option \<Rightarrow> uint32_t \<Rightarrow> key_weight list \<Rightarrow> uint32_t option" where
  "validate_keys_loop prev total_weight [] = Some total_weight"
| "validate_keys_loop prev total_weight (kw # kws) =
     (if (case prev of None \<Rightarrow> False
          | Some p \<Rightarrow> key_weight.key p < key_weight.key kw \<or> key_weight.key p = key_weight.key kw)
      then None
      else if key_weight.weight kw = 0 then None
      else validate_keys_loop (Some kw) (total_weight + ucast (key_weight.weight kw)) kws)"

definition validate_T :: "uint32_t \<Rightarrow> key_weight list \<Rightarrow> bool" where
  "validate_T group_threshold group_keys =
     (if group_threshold = 0 then False
      else (case validate_keys_loop None 0 group_keys of
              None \<Rightarrow> False
            | Some total_weight \<Rightarrow> group_threshold \<le> total_weight))"

definition validate_group :: "group_def \<Rightarrow> bool" where
  "validate_group g = validate_T (group_def.threshold g) (group_def.keys g)"

section \<open>Actions and ledger records\<close>

text \<open>
  The action payloads and the ledger records, with the fields the handlers
  read and write. \<^verbatim>\<open>fc::optional\<close> fields are options. The fields \<^verbatim>\<open>from\<close>
  and \<^verbatim>\<open>to\<close> of \<^verbatim>\<open>transferevt\<close> are written \<open>from'\<close> and \<open>to'\<close>.
\<close>

record asset =
  amount :: int64_t

record domain_def =
  name :: name128
  issuer :: public_key_type
  issue_time :: nat
  issue :: permission_def
  transfer :: permission_def
  manage :: permission_def

record token_def =
  domain :: name128
  name :: name128
  owner :: user_list

record account_def =
  name :: name128
  creator :: name128
  balance :: asset
  frozen_balance :: asset
  owner :: user_list

record newdomain =
  name :: name128
  issuer :: public_key_type
  issue :: permission_def
  transfer :: permission_def
  manage :: permission_def
  groups :: "group_def list"

record updatedomain =
  name :: name128
  issue :: "permission_def option"
  transfer :: "permission_def option"
  manage :: "permission_def option"
  groups :: "group_def list"

record issuetoken =
  domain :: name128
  names :: "name128 list"
  owner :: user_list

record transfer =
  domain :: name128
  name :: name128
  to :: user_list

record updategroup =
  id :: group_id
  threshold :: uint32_t
  keys :: "key_weight list"

record newaccount =
  name :: name128
  owner :: user_list

record updateowner =
  name :: name128
  owner :: user_list

record transferevt =
  from' :: name128
  to' :: name128
  amount :: asset

record updateaccount =
  name :: name128
  owner :: "user_list option"
  balance :: "asset option"
  frozen_balance :: "asset option"

definition validate_updategroup :: "updategroup \<Rightarrow> bool" where
  "validate_updategroup g = validate_T (updategroup.threshold g) (updategroup.keys g)"

text \<open>The value \<^verbatim>\<open>account_def()\<close> of a default-constructed account.\<close>

definition account_def_default :: account_def where
  "account_def_default =
     \<lparr>account_def.name = [], creator = [], balance = \<lparr>asset.amount = 0\<rparr>,
      frozen_balance = \<lparr>asset.amount = 0\<rparr>, owner = []\<rparr>"

text \<open>The value \<^verbatim>\<open>updateaccount()\<close>: no optional field is set.\<close>

definition updateaccount_default :: updateaccount where
  "updateaccount_default =
     \<lparr>updateaccount.name = [], owner = None, balance = None, frozen_balance = None\<rparr>"

section \<open>The ledger store\<close>

text \<open>
  Modelled from the spec: the ledger store (\<^verbatim>\<open>token_database\<close>, reached
  through \<^verbatim>\<open>context.mutable_tokendb\<close>) is not part of the source. The spec gives
  its interface: \<^verbatim>\<open>exists_*\<close>, \<^verbatim>\<open>add_*\<close>, \<^verbatim>\<open>update_*\<close>, \<^verbatim>\<open>issue_tokens\<close>,
  \<^verbatim>\<open>transfer_token\<close> and \<^verbatim>\<open>read_account\<close>, all synchronous, records found by
  identifier, an update replacing the supplied fields of the stored record
  and leaving the others as they are. The store is the list of its records in
  the order in which they were added: adding appends a record, updating
  replaces the fields of the records with the given identifier in place,
  reading returns the first record with the given identifier.
\<close>

datatype db_record =
  Domain_rec domain_def
| Group_rec group_def
| Token_rec token_def
| Account_rec account_def

type_synonym token_database = "db_record list"

text \<open>
  Modelled from the spec: the records of the store are found by identifier;
  the four tests say whether a record is the domain, group, token or account
  of the given identifier.
\<close>

fun is_domain :: "name128 \<Rightarrow> db_record \<Rightarrow> bool" where
  "is_domain n (Domain_rec d) = (domain_def.name d = n)"
| "is_domain n _ = False"

fun is_group :: "group_id \<Rightarrow> db_record \<Rightarrow> bool" where
  "is_group i (Group_rec g) = (group_def.id g = i)"
| "is_group i _ = False"

fun is_token :: "name128 \<Rightarrow> name128 \<Rightarrow> db_record \<Rightarrow> bool" where
  "is_token d n (Token_rec t) = (token_def.domain t = d \<and> token_def.name t = n)"
| "is_token d n _ = False"

fun is_account :: "name128 \<Rightarrow> db_record \<Rightarrow> bool" where
  "is_account n (Account_rec a) = (account_def.name a = n)"
| "is_account n _ = False"

text \<open>
  Modelled from the spec: \<^verbatim>\<open>exists_domain\<close>, \<^verbatim>\<open>exists_group\<close>,
  \<^verbatim>\<open>exists_token\<close> and \<^verbatim>\<open>exists_account\<close> of the ledger store, which is not in
  the source: whether the store holds a record of the identifier.
\<close>

definition exists_domain :: "token_database \<Rightarrow> name128 \<Rightarrow> bool" where
  "exists_domain tokendb n = list_ex (is_domain n) tokendb"

definition exists_group :: "token_database \<Rightarrow> group_id \<Rightarrow> bool" where
  "exists_group tokendb i = list_ex (is_group i) tokendb"

definition exists_token :: "token_database \<Rightarrow> name128 \<Rightarrow> name128 \<Rightarrow> bool" where
  "exists_token tokendb d n = list_ex (is_token d n) tokendb"

definition exists_account :: "token_database \<Rightarrow> name128 \<Rightarrow> bool" where
  "exists_account tokendb n = list_ex (is_account n) tokendb"

text \<open>
  Modelled from the spec: \<^verbatim>\<open>add_domain\<close>, \<^verbatim>\<open>add_group\<close> and \<^verbatim>\<open>add_account\<close>
  of the ledger store, which is not in the source: the record is persisted as
  a new record.
\<close>

definition add_domain :: "token_database \<Rightarrow> domain_def \<Rightarrow> token_database" where
  "add_domain tokendb d = tokendb @ [Domain_rec d]"

definition add_group :: "token_database \<Rightarrow> group_def \<Rightarrow> token_database" where
  "add_group tokendb g = tokendb @ [Group_rec g]"

definition add_account :: "token_database \<Rightarrow> account_def \<Rightarrow> token_database" where
  "add_account tokendb a = tokendb @ [Account_rec a]"

text \<open>
  Modelled from the spec: \<^verbatim>\<open>issue_tokens\<close> of the ledger store, which is not
  in the source: one token record per requested name, all with the given owner
  and domain.
\<close>

definition issue_tokens :: "token_database \<Rightarrow> issuetoken \<Rightarrow> token_database" where
  "issue_tokens tokendb itact =
     tokendb @ map (\<lambda>n. Token_rec \<lparr>token_def.domain = issuetoken.domain itact,
                                   name = n, owner = issuetoken.owner itact\<rparr>)
                   (issuetoken.names itact)"

text \<open>
  Modelled from the spec: \<^verbatim>\<open>transfer_token\<close> of the ledger store, which is not
  in the source: the owner of the token is overwritten.
\<close>

fun transfer_token_rec :: "transfer \<Rightarrow> db_record \<Rightarrow> db_record" where
  "transfer_token_rec ttact (Token_rec t) =
     (if token_def.domain t = transfer.domain ttact \<and> token_def.name t = transfer.name ttact
      then Token_rec (t\<lparr>token_def.owner := transfer.to ttact\<rparr>) else Token_rec t)"
| "transfer_token_rec ttact r = r"

definition transfer_token :: "token_database \<Rightarrow> transfer \<Rightarrow> token_database" where
  "transfer_token tokendb ttact = map (transfer_token_rec ttact) tokendb"

text \<open>
  Modelled from the spec: \<^verbatim>\<open>update_group\<close> of the ledger store, which is not
  in the source: the stored definition of the group (threshold and keys) is
  overwritten.
\<close>

fun update_group_rec :: "updategroup \<Rightarrow> db_record \<Rightarrow> db_record" where
  "update_group_rec ugact (Group_rec g) =
     (if group_def.id g = updategroup.id ugact
      then Group_rec (g\<lparr>group_def.threshold := updategroup.threshold ugact,
                        group_def.keys := updategroup.keys ugact\<rparr>)
      else Group_rec g)"
| "update_group_rec ugact r = r"

definition update_group :: "token_database \<Rightarrow> updategroup \<Rightarrow> token_database" where
  "update_group tokendb ugact = map (update_group_rec ugact) tokendb"

text \<open>
  Modelled from the spec: \<^verbatim>\<open>update_domain\<close> of the ledger store, which is not
  in the source: only the supplied fields are written, the others keep their
  stored values; the inline groups are persisted as group records.
\<close>

definition supplied :: "'a option \<Rightarrow> 'a \<Rightarrow> 'a" where
  "supplied new old = (case new of None \<Rightarrow> old | Some v \<Rightarrow> v)"

fun update_domain_rec :: "updatedomain \<Rightarrow> db_record \<Rightarrow> db_record" where
  "update_domain_rec udact (Domain_rec d) =
     (if domain_def.name d = updatedomain.name udact
      then Domain_rec (d\<lparr>domain_def.issue := supplied (updatedomain.issue udact) (domain_def.issue d),
                         domain_def.transfer := supplied (updatedomain.transfer udact) (domain_def.transfer d),
                         domain_def.manage := supplied (updatedomain.manage udact) (domain_def.manage d)\<rparr>)
      else Domain_rec d)"
| "update_domain_rec udact r = r"

definition update_domain :: "token_database \<Rightarrow> updatedomain \<Rightarrow> token_database" where
  "update_domain tokendb udact =
     map (update_domain_rec udact) tokendb @ map Group_rec (updatedomain.groups udact)"

text \<open>
  Modelled from the spec: \<^verbatim>\<open>update_account\<close> of the ledger store, which is not
  in the source: the supplied fields (\<^verbatim>\<open>owner\<close>, \<^verbatim>\<open>balance\<close>,
  \<^verbatim>\<open>frozen_balance\<close>) of the stored account are overwritten, all other
  fields are left as they are.
\<close>

definition update_account_fields :: "updateaccount \<Rightarrow> account_def \<Rightarrow> account_def" where
  "update_account_fields ua a =
     a\<lparr>account_def.owner := supplied (updateaccount.owner ua) (account_def.owner a),
       account_def.balance := supplied (updateaccount.balance ua) (account_def.balance a),
       account_def.frozen_balance :=
         supplied (updateaccount.frozen_balance ua) (account_def.frozen_balance a)\<rparr>"

fun update_account_rec :: "updateaccount \<Rightarrow> db_record \<Rightarrow> db_record" where
  "update_account_rec ua (Account_rec a) =
     (if account_def.name a = updateaccount.name ua
      then Account_rec (update_account_fields ua a) else Account_rec a)"
| "update_account_rec ua r = r"

definition update_account :: "token_database \<Rightarrow> updateaccount \<Rightarrow> token_database" where
  "update_account tokendb ua = map (update_account_rec ua) tokendb"

text \<open>
  Modelled from the spec: \<^verbatim>\<open>read_account(name, callback)\<close> of the ledger store,
  which is not in the source, calls the callback with the current record; the
  model returns the record, or \<open>None\<close> where there is none and the callback
  is not called.
\<close>

definition read_account :: "token_database \<Rightarrow> name128 \<Rightarrow> account_def option" where
  "read_account tokendb n =
     (case find (is_account n) tokendb of Some (Account_rec a) \<Rightarrow> Some a | _ \<Rightarrow> None)"

section \<open>Checked arithmetic\<close>

text \<open>
  Modelled from the spec: \<^verbatim>\<open>safemath::test_sub\<close> and \<^verbatim>\<open>safemath::test_add\<close>
  (\<^verbatim>\<open>evt/utilities/safemath.hpp\<close> is not part of the source). The spec has the
  subtraction and the addition performed with overflow detection (checked
  arithmetic), the action failing if either would leave the representable
  range. The checked operation takes the two operands and, as its third
  argument, the variable that receives the result: it answers whether the exact
  result is a 64-bit signed value (first component) and stores the 64-bit
  result in its third argument (second component, the value of that argument
  after the call). The handler passes the balance of its local copy as the
  third argument.
\<close>

definition in_int64_range :: "int \<Rightarrow> bool" where
  "in_int64_range i \<longleftrightarrow> - (2 ^ 63) \<le> i \<and> i < 2 ^ 63"

definition test_sub :: "int64_t \<Rightarrow> int64_t \<Rightarrow> int64_t \<Rightarrow> bool \<times> int64_t" where
  "test_sub a b r = (in_int64_range (sint a - sint b), a - b)"

definition test_add :: "int64_t \<Rightarrow> int64_t \<Rightarrow> int64_t \<Rightarrow> bool \<times> int64_t" where
  "test_add a b r = (in_int64_range (sint a + sint b), a + b)"

section \<open>The execution context\<close>

text \<open>
  \<^verbatim>\<open>apply_context\<close>: the decoded action (\<^verbatim>\<open>context.act.data_as<T>()\<close>), the
  authorization oracle \<^verbatim>\<open>has_authorized\<close>, the head block time of the
  controller and the ledger store. The second argument of \<^verbatim>\<open>has_authorized\<close>
  is a 128-bit key: the value of a name (\<^verbatim>\<open>(uint128_t)name\<close>,
  \<^verbatim>\<open>N128(...)\<close>) or a group id.
\<close>

datatype uint128_t = Name_key name128 | Group_key group_id

record 'a apply_context =
  act :: 'a
  has_authorized :: "name128 \<Rightarrow> uint128_t \<Rightarrow> bool"
  head_block_time :: nat
  mutable_tokendb :: token_database

text \<open>
  Two names the contract uses and does not define are parameters:
  \<^verbatim>\<open>config::system_account_name\<close> and the one-way mapping
  \<^verbatim>\<open>group_id::from_group_key\<close>.
\<close>

record externals =
  system_account_name :: name128
  from_group_key :: "public_key_type \<Rightarrow> group_id"

datatype exception = action_validate_exception string

type_synonym apply_result = "(exception + unit) \<times> token_database"

section \<open>The group resolver\<close>

text \<open>
  \<^verbatim>\<open>make_permission_checker(tokendb, groups)\<close> returns the closure
  \<^verbatim>\<open>checker(p, allowed_owner)\<close>; the inline definitions \<^verbatim>\<open>groups\<close> it captures are
  written \<open>defs\<close>. Its loop over \<^verbatim>\<open>p.groups\<close> stops at the first
  failing \<^verbatim>\<open>EVT_ASSERT\<close>; \<^verbatim>\<open>continue\<close> is the recursive call.
\<close>

fun permission_checker_loop ::
  "token_database \<Rightarrow> group_def list \<Rightarrow> bool \<Rightarrow> group_weight list \<Rightarrow> exception + unit" where
  "permission_checker_loop tokendb defs allowed_owner [] = Inr ()"
| "permission_checker_loop tokendb defs allowed_owner (g # gs) =
     (if group_weight.id g = 0
      then (if allowed_owner then permission_checker_loop tokendb defs allowed_owner gs
            else Inl (action_validate_exception ''Owner group is not allowed in ${name} permission''))
      else (let dbexisted = exists_group tokendb (group_weight.id g);
                defexisted = list_ex (\<lambda>gd. group_def.id gd = group_weight.id g) defs
            in if dbexisted \<noteq> defexisted
               then permission_checker_loop tokendb defs allowed_owner gs
               else Inl (action_validate_exception
                 ''Group ${id} is not valid, may already be defined or not provide defines'')))"

definition make_permission_checker ::
  "token_database \<Rightarrow> group_def list \<Rightarrow> permission_def \<Rightarrow> bool \<Rightarrow> exception + unit" where
  "make_permission_checker tokendb defs p allowed_owner =
     permission_checker_loop tokendb defs allowed_owner (permission_def.groups p)"

section \<open>The handlers\<close>

text \<open>
  A handler takes the context and returns the outcome together with the ledger
  store as the handler leaves it: \<open>Inr ()\<close> where it returns, \<open>Inl e\<close>
  where an \<^verbatim>\<open>EVT_ASSERT\<close> throws \<open>e\<close> (\<^verbatim>\<open>FC_CAPTURE_AND_RETHROW\<close> throws
  the exception on). The store is threaded through the statements in the
  order of the source, so the store returned with an exception is the store
  at the statement that threw.
\<close>

text \<open>The loop over the inline groups of \<^verbatim>\<open>newdomain\<close> and \<^verbatim>\<open>updatedomain\<close>.\<close>

fun validate_groups_loop :: "externals \<Rightarrow> group_def list \<Rightarrow> exception + unit" where
  "validate_groups_loop ext [] = Inr ()"
| "validate_groups_loop ext (g # gs) =
     (if \<not> validate_group g
      then Inl (action_validate_exception
        ''Group ${id} is not valid, eithor threshold is not valid or exist duplicate or unordered key'')
      else if group_def.id g \<noteq> from_group_key ext (group_def.key g)
      then Inl (action_validate_exception ''Group id and key are not match'')
      else validate_groups_loop ext gs)"

definition apply_evt_newdomain :: "externals \<Rightarrow> newdomain apply_context \<Rightarrow> apply_result" where
  "apply_evt_newdomain ext context =
    (let ndact = act context in
     if \<not> has_authorized context ''domain'' (Name_key (newdomain.name ndact))
     then (Inl (action_validate_exception ''Authorized information doesn't match''),
           mutable_tokendb context)
     else (let tokendb = mutable_tokendb context in
     if exists_domain tokendb (newdomain.name ndact)
     then (Inl (action_validate_exception ''Domain ${name} already existed''), tokendb)
     else (case validate_groups_loop ext (newdomain.groups ndact) of
       Inl e \<Rightarrow> (Inl e, tokendb)
     | Inr _ \<Rightarrow>
     if newdomain.name ndact = []
     then (Inl (action_validate_exception ''Domain name shouldn't be empty''), tokendb)
     else if permission_def.name (newdomain.issue ndact) \<noteq> ''issue''
     then (Inl (action_validate_exception
       ''Name of issue permission is not valid, provided: ${name}''), tokendb)
     else if \<not> (0 < permission_def.threshold (newdomain.issue ndact)
                \<and> validate_permission (newdomain.issue ndact))
     then (Inl (action_validate_exception
       ''Issue permission not valid, either threshold is not valid or exist duplicate or unordered keys.''),
       tokendb)
     else if permission_def.name (newdomain.transfer ndact) \<noteq> ''transfer''
     then (Inl (action_validate_exception
       ''Name of transfer permission is not valid, provided: ${name}''), tokendb)
     else if \<not> (0 < permission_def.threshold (newdomain.transfer ndact)
                \<and> validate_permission (newdomain.transfer ndact))
     then (Inl (action_validate_exception
       ''Transfer permission not valid, either threshold is not valid or exist duplicate or unordered keys.''),
       tokendb)
     else if permission_def.name (newdomain.manage ndact) \<noteq> ''manage''
     then (Inl (action_validate_exception
       ''Name of transfer permission is not valid, provided: ${name}''), tokendb)
     else if \<not> validate_permission (newdomain.manage ndact)
     then (Inl (action_validate_exception
       ''Manage permission not valid, maybe exist duplicate keys.''), tokendb)
     else (let pchecker = make_permission_checker tokendb (newdomain.groups ndact) in
       case pchecker (newdomain.issue ndact) False of
         Inl e \<Rightarrow> (Inl e, tokendb)
       | Inr _ \<Rightarrow>
       (case pchecker (newdomain.transfer ndact) True of
         Inl e \<Rightarrow> (Inl e, tokendb)
       | Inr _ \<Rightarrow>
       (case pchecker (newdomain.manage ndact) False of
         Inl e \<Rightarrow> (Inl e, tokendb)
       | Inr _ \<Rightarrow>
       (let domain = \<lparr>domain_def.name = newdomain.name ndact,
                      issuer = newdomain.issuer ndact,
                      issue_time = head_block_time context,
                      issue = newdomain.issue ndact,
                      transfer = newdomain.transfer ndact,
                      manage = newdomain.manage ndact\<rparr>;
            tokendb1 = add_domain tokendb domain;
            tokendb2 = foldl add_group tokendb1 (newdomain.groups ndact)
        in (Inr (), tokendb2))))))))"

text \<open>The loop of \<^verbatim>\<open>apply_evt_issuetoken\<close> over \<^verbatim>\<open>itact.names\<close>.\<close>

fun issuetoken_names_loop :: "token_database \<Rightarrow> name128 \<Rightarrow> name128 list \<Rightarrow> exception + unit" where
  "issuetoken_names_loop tokendb d [] = Inr ()"
| "issuetoken_names_loop tokendb d (n # ns) =
     (if exists_token tokendb d n
      then Inl (action_validate_exception ''Token ${domain}-${name} already existed'')
      else issuetoken_names_loop tokendb d ns)"

definition apply_evt_issuetoken :: "issuetoken apply_context \<Rightarrow> apply_result" where
  "apply_evt_issuetoken context =
    (let itact = act context in
     if \<not> has_authorized context (issuetoken.domain itact) (Name_key ''issue'')
     then (Inl (action_validate_exception ''Authorized information doesn't match''),
           mutable_tokendb context)
     else if \<not> exists_domain (mutable_tokendb context) (issuetoken.domain itact)
     then (Inl (action_validate_exception ''Domain ${name} not existed''), mutable_tokendb context)
     else if issuetoken.owner itact = []
     then (Inl (action_validate_exception ''Owner cannot be empty''), mutable_tokendb context)
     else (let tokendb = mutable_tokendb context in
       case issuetoken_names_loop tokendb (issuetoken.domain itact) (issuetoken.names itact) of
         Inl e \<Rightarrow> (Inl e, tokendb)
       | Inr _ \<Rightarrow> (Inr (), issue_tokens tokendb itact)))"

definition apply_evt_transfer :: "transfer apply_context \<Rightarrow> apply_result" where
  "apply_evt_transfer context =
    (let ttact = act context in
     if \<not> has_authorized context (transfer.domain ttact) (Name_key (transfer.name ttact))
     then (Inl (action_validate_exception ''Authorized information doesn't match''),
           mutable_tokendb context)
     else (let tokendb = mutable_tokendb context in
       if \<not> exists_token tokendb (transfer.domain ttact) (transfer.name ttact)
       then (Inl (action_validate_exception ''Token ${domain}-${name} not existed''), tokendb)
       else (Inr (), transfer_token tokendb ttact)))"

definition apply_evt_updategroup :: "updategroup apply_context \<Rightarrow> apply_result" where
  "apply_evt_updategroup context =
    (let ugact = act context in
     if \<not> has_authorized context ''group'' (Group_key (updategroup.id ugact))
     then (Inl (action_validate_exception ''Authorized information doesn't match''),
           mutable_tokendb context)
     else (let tokendb = mutable_tokendb context in
       if \<not> exists_group tokendb (updategroup.id ugact)
       then (Inl (action_validate_exception ''Group ${id} not existed''), tokendb)
       else if \<not> (0 < length (updategroup.keys ugact))
       then (Inl (action_validate_exception ''Group must contains at least one key''), tokendb)
       else if \<not> validate_updategroup ugact
       then (Inl (action_validate_exception
         ''Updated group is not valid, eithor threshold is not valid or exist duplicate or unordered keys''),
         tokendb)
       else (Inr (), update_group tokendb ugact)))"

text \<open>
  The three blocks of \<^verbatim>\<open>apply_evt_updatedomain\<close> guarded by
  \<^verbatim>\<open>udact.issue.valid()\<close>, \<^verbatim>\<open>udact.transfer.valid()\<close> and
  \<^verbatim>\<open>udact.manage.valid()\<close>; an absent field skips its block.
\<close>

definition updatedomain_issue ::
  "(permission_def \<Rightarrow> bool \<Rightarrow> exception + unit) \<Rightarrow> permission_def option \<Rightarrow> exception + unit" where
  "updatedomain_issue pchecker field =
     (case field of
        None \<Rightarrow> Inr ()
      | Some p \<Rightarrow>
          if permission_def.name p \<noteq> ''issue''
          then Inl (action_validate_exception
            ''Name of issue permission is not valid, provided: ${name}'')
          else if \<not> (0 < permission_def.threshold p \<and> validate_permission p)
          then Inl (action_validate_exception
            ''Issue permission not valid, either threshold is not valid or exist duplicate or unordered keys.'')
          else pchecker p False)"

definition updatedomain_transfer ::
  "(permission_def \<Rightarrow> bool \<Rightarrow> exception + unit) \<Rightarrow> permission_def option \<Rightarrow> exception + unit" where
  "updatedomain_transfer pchecker field =
     (case field of
        None \<Rightarrow> Inr ()
      | Some p \<Rightarrow>
          if permission_def.name p \<noteq> ''transfer''
          then Inl (action_validate_exception
            ''Name of transfer permission is not valid, provided: ${name}'')
          else if \<not> (0 < permission_def.threshold p \<and> validate_permission p)
          then Inl (action_validate_exception
            ''Transfer permission not valid, either threshold is not valid or exist duplicate or unordered keys.'')
          else pchecker p True)"

definition updatedomain_manage ::
  "(permission_def \<Rightarrow> bool \<Rightarrow> exception + unit) \<Rightarrow> permission_def option \<Rightarrow> exception + unit" where
  "updatedomain_manage pchecker field =
     (case field of
        None \<Rightarrow> Inr ()
      | Some p \<Rightarrow>
          if permission_def.name p \<noteq> ''manage''
          then Inl (action_validate_exception
            ''Name of manage permission is not valid, provided: ${name}'')
          else if \<not> validate_permission p
          then Inl (action_validate_exception
            ''Manage permission not valid, maybe exist duplicate keys.'')
          else pchecker p False)"

definition apply_evt_updatedomain :: "externals \<Rightarrow> updatedomain apply_context \<Rightarrow> apply_result" where
  "apply_evt_updatedomain ext context =
    (let udact = act context in
     if \<not> has_authorized context (updatedomain.name udact) (Name_key ''manage'')
     then (Inl (action_validate_exception ''Authorized information doesn't match''),
           mutable_tokendb context)
     else (let tokendb = mutable_tokendb context in
       if \<not> exists_domain tokendb (updatedomain.name udact)
       then (Inl (action_validate_exception ''Domain ${name} is not existed''), tokendb)
       else (case validate_groups_loop ext (updatedomain.groups udact) of
         Inl e \<Rightarrow> (Inl e, tokendb)
       | Inr _ \<Rightarrow>
       if updatedomain.name udact = []
       then (Inl (action_validate_exception ''Domain name shouldn't be empty''), tokendb)
       else (let pchecker = make_permission_checker tokendb (updatedomain.groups udact) in
         case updatedomain_issue pchecker (updatedomain.issue udact) of
           Inl e \<Rightarrow> (Inl e, tokendb)
         | Inr _ \<Rightarrow>
         (case updatedomain_transfer pchecker (updatedomain.transfer udact) of
           Inl e \<Rightarrow> (Inl e, tokendb)
         | Inr _ \<Rightarrow>
         (case updatedomain_manage pchecker (updatedomain.manage udact) of
           Inl e \<Rightarrow> (Inl e, tokendb)
         | Inr _ \<Rightarrow> (Inr (), update_domain tokendb udact)))))))"

text \<open>\<^verbatim>\<open>asset(10000)\<close> and \<^verbatim>\<open>asset(0)\<close> are assets of the given amount.\<close>

definition apply_evt_newaccount :: "externals \<Rightarrow> newaccount apply_context \<Rightarrow> apply_result" where
  "apply_evt_newaccount ext context =
    (let naact = act context in
     if \<not> has_authorized context ''account'' (Name_key (newaccount.name naact))
     then (Inl (action_validate_exception ''Authorized information doesn't match''),
           mutable_tokendb context)
     else (let tokendb = mutable_tokendb context in
       if newaccount.name naact = []
       then (Inl (action_validate_exception ''Account name shouldn't be empty''), tokendb)
       else if exists_account tokendb (newaccount.name naact)
       then (Inl (action_validate_exception ''Account ${name} already existed''), tokendb)
       else (let account = account_def_default;
                 account = account\<lparr>account_def.name := newaccount.name naact\<rparr>;
                 account = account\<lparr>account_def.creator := system_account_name ext\<rparr>;
                 account = account\<lparr>account_def.balance := \<lparr>asset.amount = 10000\<rparr>\<rparr>;
                 account = account\<lparr>account_def.frozen_balance := \<lparr>asset.amount = 0\<rparr>\<rparr>;
                 account = account\<lparr>account_def.owner := newaccount.owner naact\<rparr>
             in (Inr (), add_account tokendb account))))"

definition apply_evt_updateowner :: "updateowner apply_context \<Rightarrow> apply_result" where
  "apply_evt_updateowner context =
    (let uoact = act context in
     if \<not> has_authorized context ''account'' (Name_key (updateowner.name uoact))
     then (Inl (action_validate_exception ''Authorized information doesn't match''),
           mutable_tokendb context)
     else (let tokendb = mutable_tokendb context in
       if \<not> exists_account tokendb (updateowner.name uoact)
       then (Inl (action_validate_exception ''Account ${name} don't exist''), tokendb)
       else if \<not> (0 < length (updateowner.owner uoact))
       then (Inl (action_validate_exception ''Owner cannot be empty''), tokendb)
       else (let ua = updateaccount_default;
                 ua = ua\<lparr>updateaccount.name := updateowner.name uoact\<rparr>;
                 ua = ua\<lparr>updateaccount.owner := Some (updateowner.owner uoact)\<rparr>
             in (Inr (), update_account tokendb ua))))"

text \<open>
  The operators of \<^verbatim>\<open>asset\<close> the transfer uses (the type is declared outside
  the source): \<^verbatim>\<open>>=\<close> compares the signed amounts, \<^verbatim>\<open>-=\<close> and \<^verbatim>\<open>+=\<close> are
  the 64-bit operations on the amounts.
\<close>

definition asset_ge :: "asset \<Rightarrow> asset \<Rightarrow> bool" where
  "asset_ge a b \<longleftrightarrow> sint (asset.amount b) \<le> sint (asset.amount a)"

definition asset_minus :: "asset \<Rightarrow> asset \<Rightarrow> asset" where
  "asset_minus a b = a\<lparr>asset.amount := asset.amount a - asset.amount b\<rparr>"

definition asset_plus :: "asset \<Rightarrow> asset \<Rightarrow> asset" where
  "asset_plus a b = a\<lparr>asset.amount := asset.amount a + asset.amount b\<rparr>"

text \<open>
  \<^verbatim>\<open>apply_evt_transferevt\<close>. The two accounts are read into the local copies
  \<^verbatim>\<open>facc\<close> and \<^verbatim>\<open>tacc\<close> (default-constructed should the callback not run). The
  third argument of each test is the balance of the local copy, which takes
  the value the test leaves there; the statements \<^verbatim>\<open>facc.balance -= teact.amount\<close>
  and \<^verbatim>\<open>tacc.balance += teact.amount\<close> then work on that value.
\<close>

definition apply_evt_transferevt :: "transferevt apply_context \<Rightarrow> apply_result" where
  "apply_evt_transferevt context =
    (let teact = act context in
     if \<not> has_authorized context ''account'' (Name_key (transferevt.from' teact))
     then (Inl (action_validate_exception ''Authorized information doesn't match''),
           mutable_tokendb context)
     else (let tokendb = mutable_tokendb context in
       if \<not> exists_account tokendb (transferevt.from' teact)
       then (Inl (action_validate_exception ''Account ${name} don't exist''), tokendb)
       else if \<not> exists_account tokendb (transferevt.to' teact)
       then (Inl (action_validate_exception ''Account ${name} don't exist''), tokendb)
       else if \<not> (0 < sint (asset.amount (transferevt.amount teact)))
       then (Inl (action_validate_exception ''Transfer amount must be positive''), tokendb)
       else (let facc = (case read_account tokendb (transferevt.from' teact) of
                           Some a \<Rightarrow> a | None \<Rightarrow> account_def_default);
                 tacc = (case read_account tokendb (transferevt.to' teact) of
                           Some a \<Rightarrow> a | None \<Rightarrow> account_def_default)
             in
         if \<not> asset_ge (account_def.balance facc) (transferevt.amount teact)
         then (Inl (action_validate_exception
           ''Account ${name} don't have enough balance left''), tokendb)
         else (let t1 = test_sub (asset.amount (account_def.balance facc))
                          (asset.amount (transferevt.amount teact))
                          (asset.amount (account_def.balance facc));
                   r1 = fst t1;
                   facc = facc\<lparr>account_def.balance :=
                            (account_def.balance facc)\<lparr>asset.amount := snd t1\<rparr>\<rparr>;
                   t2 = test_add (asset.amount (account_def.balance tacc))
                          (asset.amount (transferevt.amount teact))
                          (asset.amount (account_def.balance tacc));
                   r2 = fst t2;
                   tacc = tacc\<lparr>account_def.balance :=
                            (account_def.balance tacc)\<lparr>asset.amount := snd t2\<rparr>\<rparr>
               in
           if \<not> (r1 \<and> r2)
           then (Inl (action_validate_exception ''Opeartions resulted in overflow results''),
                 tokendb)
           else (let facc = facc\<lparr>account_def.balance :=
                              asset_minus (account_def.balance facc) (transferevt.amount teact)\<rparr>;
                     tacc = tacc\<lparr>account_def.balance :=
                              asset_plus (account_def.balance tacc) (transferevt.amount teact)\<rparr>;
                     fua = updateaccount_default;
                     fua = fua\<lparr>updateaccount.name := account_def.name facc\<rparr>;
                     fua = fua\<lparr>updateaccount.balance := Some (account_def.balance facc)\<rparr>;
                     tua = updateaccount_default;
                     tua = tua\<lparr>updateaccount.name := account_def.name tacc\<rparr>;
                     tua = tua\<lparr>updateaccount.balance := Some (account_def.balance tacc)\<rparr>;
                     tokendb1 = update_account tokendb fua;
                     tokendb2 = update_account tokendb1 tua
                 in (Inr (), tokendb2))))))"

section \<open>Notions used to state the properties\<close>

text \<open>
  The conditions on a permission's group list, as the specification names
  them: ids in strictly descending order, a duplicate id, a zero weight, and
  the sum of the weights as a natural number.
\<close>

definition ids_strictly_descending :: "group_weight list \<Rightarrow> bool" where
  "ids_strictly_descending gws = sorted_wrt (\<lambda>a b. group_weight.id b < group_weight.id a) gws"

definition has_duplicate_id :: "group_weight list \<Rightarrow> bool" where
  "has_duplicate_id gws = (\<not> distinct (map group_weight.id gws))"

definition has_zero_weight :: "group_weight list \<Rightarrow> bool" where
  "has_zero_weight gws = (0 \<in> set (map group_weight.weight gws))"

definition sum_of_weights :: "group_weight list \<Rightarrow> nat" where
  "sum_of_weights gws = (\<Sum>g\<leftarrow>gws. unat (group_weight.weight g))"

text \<open>The same conditions on a group's key list.\<close>

definition keys_strictly_descending :: "key_weight list \<Rightarrow> bool" where
  "keys_strictly_descending kws = sorted_wrt (\<lambda>a b. key_weight.key b < key_weight.key a) kws"

definition has_duplicate_key :: "key_weight list \<Rightarrow> bool" where
  "has_duplicate_key kws = (\<not> distinct (map key_weight.key kws))"

definition has_zero_key_weight :: "key_weight list \<Rightarrow> bool" where
  "has_zero_key_weight kws = (0 \<in> set (map key_weight.weight kws))"

definition sum_of_key_weights :: "key_weight list \<Rightarrow> nat" where
  "sum_of_key_weights kws = (\<Sum>k\<leftarrow>kws. unat (key_weight.weight k))"

text \<open>The list holding \<^verbatim>\<open>prev\<close>, if there is one.\<close>

definition pre_list :: "'a option \<Rightarrow> 'a list" where
  "pre_list prev = (case prev of None \<Rightarrow> [] | Some p \<Rightarrow> [p])"

text \<open>The 32-bit sum of a list of weights, each widened to 32 bits.\<close>

fun sum_weights32 :: "weight_type list \<Rightarrow> uint32_t" where
  "sum_weights32 [] = 0"
| "sum_weights32 (w # ws) = ucast w + sum_weights32 ws"

text \<open>
  Lists of \<open>n\<close> entries of the largest weight, with the ids (keys)
  \<open>n, n - 1, \<dots>, 1\<close>.
\<close>

fun descending_groups :: "nat \<Rightarrow> group_weight list" where
  "descending_groups 0 = []"
| "descending_groups (Suc n) =
     \<lparr>group_weight.id = of_nat (Suc n), weight = 65535\<rparr> # descending_groups n"

fun descending_keys :: "nat \<Rightarrow> key_weight list" where
  "descending_keys 0 = []"
| "descending_keys (Suc n) =
     \<lparr>key_weight.key = Suc n, weight = 65535\<rparr> # descending_keys n"


text \<open>
  The balance the store holds for an account, as a signed number; \<open>None\<close>
  where the store has no such account.
\<close>

definition stored_balance :: "token_database \<Rightarrow> name128 \<Rightarrow> int option" where
  "stored_balance tokendb n =
     map_option (\<lambda>a. sint (asset.amount (account_def.balance a))) (read_account tokendb n)"

text \<open>
  The two updates \<^verbatim>\<open>apply_evt_transferevt\<close> hands to \<^verbatim>\<open>update_account\<close>: the
  account name with the balance read from the store less the amount taken
  twice (by the checked subtraction and by \<^verbatim>\<open>-=\<close>), and the account name with
  the balance read from the store plus the amount taken twice (by the checked
  addition and by \<^verbatim>\<open>+=\<close>), in 64-bit arithmetic.
\<close>

definition debit :: "name128 \<Rightarrow> asset \<Rightarrow> asset \<Rightarrow> updateaccount" where
  "debit n b a = \<lparr>updateaccount.name = n, owner = None,
      balance = Some (b\<lparr>asset.amount := asset.amount b - asset.amount a - asset.amount a\<rparr>),
      frozen_balance = None\<rparr>"

definition credit :: "name128 \<Rightarrow> asset \<Rightarrow> asset \<Rightarrow> updateaccount" where
  "credit n b a = \<lparr>updateaccount.name = n, owner = None,
      balance = Some (b\<lparr>asset.amount := asset.amount b + asset.amount a + asset.amount a\<rparr>),
      frozen_balance = None\<rparr>"

text \<open>
  The exception every handler throws at its first \<^verbatim>\<open>EVT_ASSERT\<close>, the
  authorization check.
\<close>

definition unauthorized :: exception where
  "unauthorized = action_validate_exception ''Authorized information doesn't match''"

text \<open>
  The group resolver's rule for one entry of a permission: an entry with the
  empty id is accepted where the owner group is allowed; any other entry is
  accepted where exactly one of the two holds: the id exists in the store, the
  id is among the inline definitions.
\<close>

definition defined_inline :: "group_def list \<Rightarrow> group_id \<Rightarrow> bool" where
  "defined_inline defs i = list_ex (\<lambda>gd. group_def.id gd = i) defs"

definition group_reference_accepted ::
  "token_database \<Rightarrow> group_def list \<Rightarrow> bool \<Rightarrow> group_weight \<Rightarrow> bool" where
  "group_reference_accepted tokendb defs allowed_owner g \<longleftrightarrow>
     (if group_weight.id g = 0 then allowed_owner
      else (exists_group tokendb (group_weight.id g) \<and> \<not> defined_inline defs (group_weight.id g))
         \<or> (\<not> exists_group tokendb (group_weight.id g) \<and> defined_inline defs (group_weight.id g)))"

text \<open>
  The two checks on an inline group of \<^verbatim>\<open>newdomain\<close> and \<^verbatim>\<open>updatedomain\<close>.
\<close>

definition inline_group_valid :: "externals \<Rightarrow> group_def \<Rightarrow> bool" where
  "inline_group_valid ext g \<longleftrightarrow>
     validate_group g \<and> group_def.id g = from_group_key ext (group_def.key g)"

text \<open>
  The preconditions of each handler: the conjunction of the conditions of its
  \<^verbatim>\<open>EVT_ASSERT\<close>s, in the order of the source.
\<close>

definition newdomain_preconditions :: "externals \<Rightarrow> newdomain apply_context \<Rightarrow> bool" where
  "newdomain_preconditions ext context \<longleftrightarrow>
     has_authorized context ''domain'' (Name_key (newdomain.name (act context)))
     \<and> \<not> exists_domain (mutable_tokendb context) (newdomain.name (act context))
     \<and> list_all (inline_group_valid ext) (newdomain.groups (act context))
     \<and> newdomain.name (act context) \<noteq> []
     \<and> permission_def.name (newdomain.issue (act context)) = ''issue''
     \<and> 0 < permission_def.threshold (newdomain.issue (act context))
     \<and> validate_permission (newdomain.issue (act context))
     \<and> permission_def.name (newdomain.transfer (act context)) = ''transfer''
     \<and> 0 < permission_def.threshold (newdomain.transfer (act context))
     \<and> validate_permission (newdomain.transfer (act context))
     \<and> permission_def.name (newdomain.manage (act context)) = ''manage''
     \<and> validate_permission (newdomain.manage (act context))
     \<and> list_all (group_reference_accepted (mutable_tokendb context)
                    (newdomain.groups (act context)) False)
          (permission_def.groups (newdomain.issue (act context)))
     \<and> list_all (group_reference_accepted (mutable_tokendb context)
                    (newdomain.groups (act context)) True)
          (permission_def.groups (newdomain.transfer (act context)))
     \<and> list_all (group_reference_accepted (mutable_tokendb context)
                    (newdomain.groups (act context)) False)
          (permission_def.groups (newdomain.manage (act context)))"

definition issuetoken_preconditions :: "issuetoken apply_context \<Rightarrow> bool" where
  "issuetoken_preconditions context \<longleftrightarrow>
     has_authorized context (issuetoken.domain (act context)) (Name_key ''issue'')
     \<and> exists_domain (mutable_tokendb context) (issuetoken.domain (act context))
     \<and> issuetoken.owner (act context) \<noteq> []
     \<and> list_all (\<lambda>n. \<not> exists_token (mutable_tokendb context) (issuetoken.domain (act context)) n)
          (issuetoken.names (act context))"

definition transfer_preconditions :: "transfer apply_context \<Rightarrow> bool" where
  "transfer_preconditions context \<longleftrightarrow>
     has_authorized context (transfer.domain (act context)) (Name_key (transfer.name (act context)))
     \<and> exists_token (mutable_tokendb context) (transfer.domain (act context))
          (transfer.name (act context))"

definition updategroup_preconditions :: "updategroup apply_context \<Rightarrow> bool" where
  "updategroup_preconditions context \<longleftrightarrow>
     has_authorized context ''group'' (Group_key (updategroup.id (act context)))
     \<and> exists_group (mutable_tokendb context) (updategroup.id (act context))
     \<and> updategroup.keys (act context) \<noteq> []
     \<and> validate_updategroup (act context)"

definition updatedomain_field_ok ::
  "token_database \<Rightarrow> group_def list \<Rightarrow> string \<Rightarrow> bool \<Rightarrow> bool \<Rightarrow> permission_def option \<Rightarrow> bool" where
  "updatedomain_field_ok tokendb defs slot positive allowed_owner field \<longleftrightarrow>
     (case field of
        None \<Rightarrow> True
      | Some p \<Rightarrow>
          permission_def.name p = slot
          \<and> (if positive then 0 < permission_def.threshold p else True)
          \<and> validate_permission p
          \<and> list_all (group_reference_accepted tokendb defs allowed_owner) (permission_def.groups p))"

definition updatedomain_preconditions :: "externals \<Rightarrow> updatedomain apply_context \<Rightarrow> bool" where
  "updatedomain_preconditions ext context \<longleftrightarrow>
     has_authorized context (updatedomain.name (act context)) (Name_key ''manage'')
     \<and> exists_domain (mutable_tokendb context) (updatedomain.name (act context))
     \<and> list_all (inline_group_valid ext) (updatedomain.groups (act context))
     \<and> updatedomain.name (act context) \<noteq> []
     \<and> updatedomain_field_ok (mutable_tokendb context) (updatedomain.groups (act context))
          ''issue'' True False (updatedomain.issue (act context))
     \<and> updatedomain_field_ok (mutable_tokendb context) (updatedomain.groups (act context))
          ''transfer'' True True (updatedomain.transfer (act context))
     \<and> updatedomain_field_ok (mutable_tokendb context) (updatedomain.groups (act context))
          ''manage'' False False (updatedomain.manage (act context))"

definition newaccount_preconditions :: "newaccount apply_context \<Rightarrow> bool" where
  "newaccount_preconditions context \<longleftrightarrow>
     has_authorized context ''account'' (Name_key (newaccount.name (act context)))
     \<and> newaccount.name (act context) \<noteq> []
     \<and> \<not> exists_account (mutable_tokendb context) (newaccount.name (act context))"

definition updateowner_preconditions :: "updateowner apply_context \<Rightarrow> bool" where
  "updateowner_preconditions context \<longleftrightarrow>
     has_authorized context ''account'' (Name_key (updateowner.name (act context)))
     \<and> exists_account (mutable_tokendb context) (updateowner.name (act context))
     \<and> updateowner.owner (act context) \<noteq> []"

definition transferevt_preconditions :: "transferevt apply_context \<Rightarrow> bool" where
  "transferevt_preconditions context \<longleftrightarrow>
     has_authorized context ''account'' (Name_key (transferevt.from' (act context)))
     \<and> exists_account (mutable_tokendb context) (transferevt.from' (act context))
     \<and> exists_account (mutable_tokendb context) (transferevt.to' (act context))
     \<and> 0 < sint (asset.amount (transferevt.amount (act context)))
     \<and> (case read_account (mutable_tokendb context) (transferevt.from' (act context)) of
          None \<Rightarrow> False
        | Some fa \<Rightarrow>
            sint (asset.amount (transferevt.amount (act context)))
              \<le> sint (asset.amount (account_def.balance fa))
            \<and> in_int64_range (sint (asset.amount (account_def.balance fa))
                 - sint (asset.amount (transferevt.amount (act context)))))
     \<and> (case read_account (mutable_tokendb context) (transferevt.to' (act context)) of
          None \<Rightarrow> False
        | Some ta \<Rightarrow>
            in_int64_range (sint (asset.amount (account_def.balance ta))
              + sint (asset.amount (transferevt.amount (act context)))))"

section \<open>Example ledgers and actions\<close>

text \<open>
  Concrete inputs at which the theorems below are evaluated: two oracles and
  the parameters, a domain with two inline groups (the second referenced by
  no permission, the transfer permission naming the owner group), the same
  domain with the owner group named in the issue permission as well, and a
  ledger with three accounts, the third holding the largest balance.
\<close>

definition example_externals :: externals where
  "example_externals = \<lparr>system_account_name = ''evt'', from_group_key = of_nat\<rparr>"

definition authorize_all :: "name128 \<Rightarrow> uint128_t \<Rightarrow> bool" where
  "authorize_all kind k = True"

definition authorize_domain_kind :: "name128 \<Rightarrow> uint128_t \<Rightarrow> bool" where
  "authorize_domain_kind kind k \<longleftrightarrow> kind = ''domain''"

definition authorize_manage_key :: "name128 \<Rightarrow> uint128_t \<Rightarrow> bool" where
  "authorize_manage_key kind k \<longleftrightarrow> k = Name_key ''manage''"

definition group5 :: group_def where
  "group5 = \<lparr>group_def.id = 5, key = 5, threshold = 1,
              keys = [\<lparr>key_weight.key = 9, weight = 1\<rparr>]\<rparr>"

definition group6 :: group_def where
  "group6 = \<lparr>group_def.id = 6, key = 6, threshold = 1,
              keys = [\<lparr>key_weight.key = 9, weight = 1\<rparr>]\<rparr>"

definition newdomain_d1 :: newdomain where
  "newdomain_d1 =
     \<lparr>newdomain.name = ''d1'', issuer = 1,
      issue = \<lparr>permission_def.name = ''issue'', threshold = 1,
               groups = [\<lparr>group_weight.id = 5, weight = 1\<rparr>]\<rparr>,
      transfer = \<lparr>permission_def.name = ''transfer'', threshold = 1,
                  groups = [\<lparr>group_weight.id = 5, weight = 1\<rparr>,
                            \<lparr>group_weight.id = 0, weight = 1\<rparr>]\<rparr>,
      manage = \<lparr>permission_def.name = ''manage'', threshold = 0, groups = []\<rparr>,
      groups = [group5, group6]\<rparr>"

definition domain_d1 :: domain_def where
  "domain_d1 =
     \<lparr>domain_def.name = ''d1'', issuer = 1, issue_time = 42,
      issue = newdomain.issue newdomain_d1,
      transfer = newdomain.transfer newdomain_d1,
      manage = newdomain.manage newdomain_d1\<rparr>"

definition newdomain_context :: "newdomain apply_context" where
  "newdomain_context =
     \<lparr>act = newdomain_d1, has_authorized = authorize_all, head_block_time = 42,
      mutable_tokendb = []\<rparr>"

definition newdomain_owner_in_issue :: "newdomain apply_context" where
  "newdomain_owner_in_issue =
     \<lparr>act = newdomain_d1\<lparr>newdomain.issue :=
              \<lparr>permission_def.name = ''issue'', threshold = 1,
               groups = [\<lparr>group_weight.id = 5, weight = 1\<rparr>,
                         \<lparr>group_weight.id = 0, weight = 1\<rparr>]\<rparr>\<rparr>,
      has_authorized = authorize_all, head_block_time = 42,
      mutable_tokendb = []\<rparr>"

definition issuetoken_context :: "issuetoken apply_context" where
  "issuetoken_context =
     \<lparr>act = \<lparr>issuetoken.domain = ''d1'', names = [], owner = [7]\<rparr>,
      has_authorized = authorize_all, head_block_time = 43,
      mutable_tokendb = [Domain_rec domain_d1]\<rparr>"

definition updatedomain_context ::
  "(name128 \<Rightarrow> uint128_t \<Rightarrow> bool) \<Rightarrow> updatedomain apply_context" where
  "updatedomain_context oracle =
     \<lparr>act = \<lparr>updatedomain.name = ''d1'', issue = None, transfer = None, manage = None,
              groups = []\<rparr>,
      has_authorized = oracle, head_block_time = 43,
      mutable_tokendb = [Domain_rec domain_d1]\<rparr>"

definition alice :: account_def where
  "alice = \<lparr>account_def.name = ''alice'', creator = ''evt'', balance = \<lparr>asset.amount = 10000\<rparr>,
            frozen_balance = \<lparr>asset.amount = 0\<rparr>, owner = [7]\<rparr>"

definition bob :: account_def where
  "bob = \<lparr>account_def.name = ''bob'', creator = ''evt'', balance = \<lparr>asset.amount = 10000\<rparr>,
          frozen_balance = \<lparr>asset.amount = 0\<rparr>, owner = [8]\<rparr>"

definition carol :: account_def where
  "carol = \<lparr>account_def.name = ''carol'', creator = ''evt'',
            balance = \<lparr>asset.amount = 9223372036854775807\<rparr>,
            frozen_balance = \<lparr>asset.amount = 0\<rparr>, owner = [9]\<rparr>"

definition transferevt_context :: "name128 \<Rightarrow> name128 \<Rightarrow> int64_t \<Rightarrow> transferevt apply_context" where
  "transferevt_context f t a =
     \<lparr>act = \<lparr>transferevt.from' = f, to' = t, amount = \<lparr>asset.amount = a\<rparr>\<rparr>,
      has_authorized = authorize_all, head_block_time = 0,
      mutable_tokendb = [Account_rec alice, Account_rec bob, Account_rec carol]\<rparr>"

section \<open>The validation primitives\<close>

lemma validate_permission_loop_char:
  "validate_permission_loop prev tw gws =
     (if sorted_wrt (\<lambda>a b. group_weight.id b < group_weight.id a) (pre_list prev @ gws)
         \<and> (\<forall>g \<in> set gws. group_weight.weight g \<noteq> 0)
      then Some (tw + sum_weights32 (map group_weight.weight gws)) else None)"
proof (induction gws arbitrary: prev tw)
  case Nil
  then show ?case by (simp add: pre_list_def split: option.splits)
next
  case (Cons gw gws)
  show ?case
  proof (cases prev)
    case None
    then show ?thesis by (auto simp: Cons.IH pre_list_def add.assoc)
  next
    case (Some p)
    then show ?thesis
      by (auto simp: Cons.IH pre_list_def add.assoc not_le)
  qed
qed

lemma validate_keys_loop_char:
  "validate_keys_loop prev tw kws =
     (if sorted_wrt (\<lambda>a b. key_weight.key b < key_weight.key a) (pre_list prev @ kws)
         \<and> (\<forall>k \<in> set kws. key_weight.weight k \<noteq> 0)
      then Some (tw + sum_weights32 (map key_weight.weight kws)) else None)"
proof (induction kws arbitrary: prev tw)
  case Nil
  then show ?case by (simp add: pre_list_def split: option.splits)
next
  case (Cons kw kws)
  show ?case
  proof (cases prev)
    case None
    then show ?thesis by (auto simp: Cons.IH pre_list_def add.assoc)
  next
    case (Some p)
    then show ?thesis
      by (auto simp: Cons.IH pre_list_def add.assoc)
  qed
qed

lemma unat_sum_weights32:
  "unat (sum_weights32 ws) = (\<Sum>w\<leftarrow>ws. unat w) mod 2 ^ 32"
proof (induction ws)
  case Nil
  show ?case by simp
next
  case (Cons w ws)
  have "unat w < 2 ^ 16"
    using unsigned_less [of w, where ?'a = nat] by simp
  then have "unat (ucast w :: uint32_t) = unat w"
    by (simp add: unsigned_ucast_eq take_bit_eq_mod)
  then show ?case using Cons
    by (simp add: unat_word_ariths mod_add_right_eq)
qed

lemma strictly_descending_distinct:
  "sorted_wrt (\<lambda>a b. f b < f a) xs \<Longrightarrow> distinct (map (f :: 'a \<Rightarrow> 'b :: linorder) xs)"
  by (induction xs) auto

lemma validate_permission_char:
  "validate_permission p \<longleftrightarrow>
     ids_strictly_descending (permission_def.groups p)
     \<and> \<not> has_zero_weight (permission_def.groups p)
     \<and> unat (permission_def.threshold p) \<le> sum_of_weights (permission_def.groups p) mod 2 ^ 32"
proof -
  have s: "sum_list (map (unat \<circ> group_weight.weight) gws) = sum_of_weights gws" for gws
    by (simp add: sum_of_weights_def comp_def)
  have z: "(\<forall>g\<in>set gws. group_weight.weight g \<noteq> 0) = (\<not> has_zero_weight gws)" for gws
    by (auto simp: has_zero_weight_def)
  show ?thesis
    by (simp add: validate_permission_def validate_permission_loop_char pre_list_def
        ids_strictly_descending_def z word_le_nat_alt unat_sum_weights32 s)
qed

lemma validate_T_char:
  "validate_T thr kws \<longleftrightarrow>
     thr \<noteq> 0 \<and> keys_strictly_descending kws \<and> \<not> has_zero_key_weight kws
     \<and> unat thr \<le> sum_of_key_weights kws mod 2 ^ 32"
proof -
  have s: "sum_list (map (unat \<circ> key_weight.weight) ks) = sum_of_key_weights ks" for ks
    by (simp add: sum_of_key_weights_def comp_def)
  have z: "(\<forall>k\<in>set ks. key_weight.weight k \<noteq> 0) = (\<not> has_zero_key_weight ks)" for ks
    by (auto simp: has_zero_key_weight_def)
  show ?thesis
    by (simp add: validate_T_def validate_keys_loop_char pre_list_def
        keys_strictly_descending_def z word_le_nat_alt unat_sum_weights32 s)
qed

lemma descending_groups_ids:
  "g \<in> set (descending_groups n) \<Longrightarrow> \<exists>k. 0 < k \<and> k \<le> n \<and> group_weight.id g = of_nat k"
  by (induction n) (auto intro: le_SucI)

lemma descending_groups_weight:
  "g \<in> set (descending_groups n) \<Longrightarrow> group_weight.weight g = 65535"
  by (induction n) auto

lemma descending_groups_sorted:
  "n < 2 ^ 128 \<Longrightarrow> ids_strictly_descending (descending_groups n)"
proof (induction n)
  case 0
  show ?case by (simp add: ids_strictly_descending_def)
next
  case (Suc n)
  have "group_weight.id g < (of_nat (Suc n) :: group_id)" if "g \<in> set (descending_groups n)" for g
  proof -
    from descending_groups_ids [OF that] obtain k where k: "k \<le> n" "group_weight.id g = of_nat k"
      by blast
    have "(of_nat k :: group_id) < of_nat (Suc n)"
      unfolding word_of_nat_less_iff using k(1) Suc.prems by (simp add: take_bit_nat_eq_self)
    with k(2) show ?thesis by simp
  qed
  with Suc show ?case by (simp add: ids_strictly_descending_def)
qed

lemma descending_groups_sum: "sum_of_weights (descending_groups n) = n * 65535"
  by (induction n) (simp_all add: sum_of_weights_def)

lemma descending_keys_bound:
  "k \<in> set (descending_keys n) \<Longrightarrow> key_weight.key k \<le> n \<and> key_weight.weight k = 65535"
  by (induction n) auto

lemma descending_keys_sorted: "keys_strictly_descending (descending_keys n)"
proof (induction n)
  case 0
  show ?case by (simp add: keys_strictly_descending_def)
next
  case (Suc n)
  have "key_weight.key k < Suc n" if "k \<in> set (descending_keys n)" for k
    using descending_keys_bound [OF that] by simp
  with Suc show ?case by (simp add: keys_strictly_descending_def)
qed

lemma descending_keys_sum: "sum_of_key_weights (descending_keys n) = n * 65535"
  by (induction n) (simp_all add: sum_of_key_weights_def)

text \<open>
  C5 (as amended). \<^verbatim>\<open>validate\<close> of a permission returns false if and only if
  the groups are not in strictly descending order by id, or hold a duplicate
  id, or hold an entry of weight zero, or the sum of the weights taken modulo
  \<open>2^32\<close> (the total is accumulated in a \<^verbatim>\<open>uint32_t\<close>) is strictly less than
  the threshold; otherwise it returns true.
\<close>

theorem validate_permission_false_iff:
  "validate_permission p = False \<longleftrightarrow>
     \<not> ids_strictly_descending (permission_def.groups p)
     \<or> has_duplicate_id (permission_def.groups p)
     \<or> has_zero_weight (permission_def.groups p)
     \<or> sum_of_weights (permission_def.groups p) mod 2 ^ 32 < unat (permission_def.threshold p)"
proof -
  have "ids_strictly_descending gws \<Longrightarrow> \<not> has_duplicate_id gws" for gws
    unfolding ids_strictly_descending_def has_duplicate_id_def
    using strictly_descending_distinct [of group_weight.id gws] by simp
  then show ?thesis
    by (auto simp: validate_permission_char not_le)
qed

text \<open>
  The theorem at two permissions: one with an entry of weight zero, which is
  rejected, and one with two groups of weight 1 and threshold 2, which is
  accepted.
\<close>

theorem validate_permission_false_iff_witness:
  "has_zero_weight [\<lparr>group_weight.id = 2, weight = 0\<rparr>]
   \<and> validate_permission \<lparr>permission_def.name = ''issue'', threshold = 1,
        groups = [\<lparr>group_weight.id = 2, weight = 0\<rparr>]\<rparr> = False
   \<and> validate_permission \<lparr>permission_def.name = ''issue'', threshold = 2,
        groups = [\<lparr>group_weight.id = 2, weight = 1\<rparr>, \<lparr>group_weight.id = 1, weight = 1\<rparr>]\<rparr> = True"
  using validate_permission_false_iff [of "\<lparr>permission_def.name = ''issue'', threshold = 1,
        groups = [\<lparr>group_weight.id = 2, weight = 0\<rparr>]\<rparr>"]
    validate_permission_false_iff [of "\<lparr>permission_def.name = ''issue'', threshold = 2,
        groups = [\<lparr>group_weight.id = 2, weight = 1\<rparr>, \<lparr>group_weight.id = 1, weight = 1\<rparr>]\<rparr>"]
  by (simp add: has_zero_weight_def ids_strictly_descending_def has_duplicate_id_def
      sum_of_weights_def)

text \<open>
  C5 as stated, with the sum of the weights as a number, fails: a permission
  with the 65538 groups of ids 65538 down to 1, each of weight 65535, and
  threshold 65535 is in strictly descending order, has no duplicate id and no
  zero weight, and its weights sum to 4295032830, which is not below the
  threshold; the 32-bit total wraps to 65534 and \<^verbatim>\<open>validate\<close> returns false.
\<close>

theorem validate_permission_sum_counterexample:
  "\<not> (validate_permission
         \<lparr>permission_def.name = ''issue'', threshold = 65535, groups = descending_groups 65538\<rparr> = False
       \<longleftrightarrow>
       \<not> ids_strictly_descending (descending_groups 65538)
       \<or> has_duplicate_id (descending_groups 65538)
       \<or> has_zero_weight (descending_groups 65538)
       \<or> sum_of_weights (descending_groups 65538) < unat (65535 :: uint32_t))"
proof -
  have d: "ids_strictly_descending (descending_groups 65538)"
    by (rule descending_groups_sorted) simp
  have nz: "\<not> has_zero_weight (descending_groups 65538)"
    using descending_groups_weight [of _ 65538] by (auto simp: has_zero_weight_def)
  have nd: "\<not> has_duplicate_id (descending_groups 65538)"
    using d strictly_descending_distinct [of group_weight.id "descending_groups 65538"]
    by (simp add: ids_strictly_descending_def has_duplicate_id_def)
  have v: "validate_permission
      \<lparr>permission_def.name = ''issue'', threshold = 65535, groups = descending_groups 65538\<rparr> = False"
    by (simp add: validate_permission_char descending_groups_sum)
  show ?thesis
    using d nz nd v by (simp add: descending_groups_sum)
qed

text \<open>
  C6 (as amended). \<^verbatim>\<open>validate\<close> of a group definition returns false if and
  only if its threshold is zero, or the keys are not in strictly descending
  order, or hold a duplicate key, or hold an entry of weight zero, or the sum
  of the weights taken modulo \<open>2^32\<close> is strictly less than the threshold;
  otherwise it returns true.
\<close>

theorem validate_group_false_iff:
  "validate_group g = False \<longleftrightarrow>
     group_def.threshold g = 0
     \<or> \<not> keys_strictly_descending (group_def.keys g)
     \<or> has_duplicate_key (group_def.keys g)
     \<or> has_zero_key_weight (group_def.keys g)
     \<or> sum_of_key_weights (group_def.keys g) mod 2 ^ 32 < unat (group_def.threshold g)"
proof -
  have "keys_strictly_descending kws \<Longrightarrow> \<not> has_duplicate_key kws" for kws
    unfolding keys_strictly_descending_def has_duplicate_key_def
    using strictly_descending_distinct [of key_weight.key kws] by simp
  then show ?thesis
    by (auto simp: validate_group_def validate_T_char not_le)
qed

text \<open>
  The theorem at three groups: one of threshold zero and one with two equal
  keys, both rejected, and one with the keys 7 and 3 of weight 1 and
  threshold 2, accepted.
\<close>

theorem validate_group_false_iff_witness:
  "validate_group \<lparr>group_def.id = 1, key = 5, threshold = 0,
        keys = [\<lparr>key_weight.key = 7, weight = 1\<rparr>]\<rparr> = False
   \<and> has_duplicate_key [\<lparr>key_weight.key = 7, weight = 1\<rparr>, \<lparr>key_weight.key = 7, weight = 1\<rparr>]
   \<and> validate_group \<lparr>group_def.id = 1, key = 5, threshold = 1,
        keys = [\<lparr>key_weight.key = 7, weight = 1\<rparr>, \<lparr>key_weight.key = 7, weight = 1\<rparr>]\<rparr> = False
   \<and> validate_group \<lparr>group_def.id = 1, key = 5, threshold = 2,
        keys = [\<lparr>key_weight.key = 7, weight = 1\<rparr>, \<lparr>key_weight.key = 3, weight = 1\<rparr>]\<rparr> = True"
  using validate_group_false_iff [of "\<lparr>group_def.id = 1, key = 5, threshold = 0,
        keys = [\<lparr>key_weight.key = 7, weight = 1\<rparr>]\<rparr>"]
    validate_group_false_iff [of "\<lparr>group_def.id = 1, key = 5, threshold = 1,
        keys = [\<lparr>key_weight.key = 7, weight = 1\<rparr>, \<lparr>key_weight.key = 7, weight = 1\<rparr>]\<rparr>"]
    validate_group_false_iff [of "\<lparr>group_def.id = 1, key = 5, threshold = 2,
        keys = [\<lparr>key_weight.key = 7, weight = 1\<rparr>, \<lparr>key_weight.key = 3, weight = 1\<rparr>]\<rparr>"]
  by (simp add: has_zero_key_weight_def keys_strictly_descending_def has_duplicate_key_def
      sum_of_key_weights_def)

text \<open>
  C6 as stated, with the sum of the weights as a number, fails: a group of
  threshold 65535 with the 65538 keys 65538 down to 1, each of weight 65535,
  meets none of the five conditions (its weights sum to 4295032830), yet the
  32-bit total wraps to 65534 and \<^verbatim>\<open>validate\<close> returns false.
\<close>

theorem validate_group_sum_counterexample:
  "\<not> (validate_group
         \<lparr>group_def.id = 1, key = 5, threshold = 65535, keys = descending_keys 65538\<rparr> = False
       \<longleftrightarrow>
       (65535 :: uint32_t) = 0
       \<or> \<not> keys_strictly_descending (descending_keys 65538)
       \<or> has_duplicate_key (descending_keys 65538)
       \<or> has_zero_key_weight (descending_keys 65538)
       \<or> sum_of_key_weights (descending_keys 65538) < unat (65535 :: uint32_t))"
proof -
  have d: "keys_strictly_descending (descending_keys 65538)"
    by (rule descending_keys_sorted)
  have nz: "\<not> has_zero_key_weight (descending_keys 65538)"
    using descending_keys_bound [of _ 65538] by (auto simp: has_zero_key_weight_def)
  have nd: "\<not> has_duplicate_key (descending_keys 65538)"
    using d strictly_descending_distinct [of key_weight.key "descending_keys 65538"]
    by (simp add: keys_strictly_descending_def has_duplicate_key_def)
  have v: "validate_group
      \<lparr>group_def.id = 1, key = 5, threshold = 65535, keys = descending_keys 65538\<rparr> = False"
    by (simp add: validate_group_def validate_T_char descending_keys_sum)
  show ?thesis
    using d nz nd v by (simp add: descending_keys_sum)
qed


section \<open>The ledger store\<close>

lemma foldl_add_group: "foldl add_group tokendb gs = tokendb @ map Group_rec gs"
  by (induction gs arbitrary: tokendb) (simp_all add: add_group_def)

lemma read_account_not_exists:
  "\<not> exists_account tokendb n \<Longrightarrow> read_account (tokendb @ [Account_rec a]) n =
     (if account_def.name a = n then Some a else None)"
  by (induction tokendb) (auto simp: exists_account_def read_account_def)

lemma read_account_name:
  "read_account tokendb n = Some a \<Longrightarrow> account_def.name a = n"
proof (induction tokendb)
  case Nil
  then show ?case by (simp add: read_account_def)
next
  case (Cons r tokendb)
  then show ?case
    by (cases r) (auto simp: read_account_def split: if_splits)
qed

lemma exists_account_read:
  "exists_account tokendb n \<longleftrightarrow> read_account tokendb n \<noteq> None"
proof (induction tokendb)
  case Nil
  show ?case by (simp add: read_account_def exists_account_def)
next
  case (Cons r tokendb)
  then show ?case
    by (cases r) (auto simp: read_account_def exists_account_def)
qed

lemma name_update_account_fields:
  "account_def.name (update_account_fields ua a) = account_def.name a"
  by (simp add: update_account_fields_def)

lemma read_update_account:
  "read_account (update_account tokendb ua) n =
     (if n = updateaccount.name ua
      then map_option (update_account_fields ua) (read_account tokendb n)
      else read_account tokendb n)"
proof (induction tokendb)
  case Nil
  show ?case by (simp add: read_account_def update_account_def)
next
  case (Cons r tokendb)
  then show ?case
    by (cases r) (auto simp: read_account_def update_account_def name_update_account_fields)
qed

section \<open>The group resolver\<close>

lemma permission_checker_loop_step:
  "permission_checker_loop tokendb defs allowed_owner (g # gs) = Inr () \<longleftrightarrow>
     group_reference_accepted tokendb defs allowed_owner g
     \<and> permission_checker_loop tokendb defs allowed_owner gs = Inr ()"
  by (auto simp: group_reference_accepted_def defined_inline_def Let_def)

lemma permission_checker_loop_char:
  "permission_checker_loop tokendb defs allowed_owner gs = Inr () \<longleftrightarrow>
     list_all (group_reference_accepted tokendb defs allowed_owner) gs"
  by (induction gs) (simp_all add: permission_checker_loop_step del: permission_checker_loop.simps(2))

lemma make_permission_checker_char:
  "make_permission_checker tokendb defs p allowed_owner = Inr () \<longleftrightarrow>
     list_all (group_reference_accepted tokendb defs allowed_owner) (permission_def.groups p)"
  by (simp add: make_permission_checker_def permission_checker_loop_char)

lemma validate_groups_loop_step:
  "validate_groups_loop ext (g # gs) = Inr () \<longleftrightarrow>
     inline_group_valid ext g \<and> validate_groups_loop ext gs = Inr ()"
  by (simp add: inline_group_valid_def)

lemma validate_groups_loop_char:
  "validate_groups_loop ext gs = Inr () \<longleftrightarrow> list_all (inline_group_valid ext) gs"
  by (induction gs) (simp_all add: validate_groups_loop_step del: validate_groups_loop.simps(2))

lemma issuetoken_names_loop_char:
  "issuetoken_names_loop tokendb d ns = Inr () \<longleftrightarrow>
     list_all (\<lambda>n. \<not> exists_token tokendb d n) ns"
  by (induction ns) auto

section \<open>Handlers: success, failure and the store\<close>

text \<open>
  For each handler: it returns exactly when its preconditions hold, and where
  it does not return the store is the one it was given.
\<close>

lemma raise_unchanged:
  fixes r :: apply_result
  assumes "fst r = Inr () \<or> snd r = tokendb" and "fst r \<noteq> Inr ()"
  shows "\<exists>e. r = (Inl e, tokendb)"
proof -
  obtain x s where r: "r = (x, s)" by (cases r)
  with assms show ?thesis by (cases x) auto
qed

lemma newdomain_unchanged:
  "fst (apply_evt_newdomain ext context) = Inr ()
   \<or> snd (apply_evt_newdomain ext context) = mutable_tokendb context"
  by (simp add: apply_evt_newdomain_def Let_def split: sum.splits)

lemma newdomain_success_pre:
  "fst (apply_evt_newdomain ext context) = Inr () \<Longrightarrow> newdomain_preconditions ext context"
  by (simp add: newdomain_preconditions_def apply_evt_newdomain_def Let_def
      flip: validate_groups_loop_char make_permission_checker_char
      split: if_splits sum.splits)

lemma newdomain_success:
  assumes "newdomain_preconditions ext context"
  shows "fst (apply_evt_newdomain ext context) = Inr ()"
proof -
  from assms have
    "validate_groups_loop ext (newdomain.groups (act context)) = Inr ()"
    "make_permission_checker (mutable_tokendb context) (newdomain.groups (act context))
       (newdomain.issue (act context)) False = Inr ()"
    "make_permission_checker (mutable_tokendb context) (newdomain.groups (act context))
       (newdomain.transfer (act context)) True = Inr ()"
    "make_permission_checker (mutable_tokendb context) (newdomain.groups (act context))
       (newdomain.manage (act context)) False = Inr ()"
    by (simp_all add: newdomain_preconditions_def validate_groups_loop_char
        make_permission_checker_char)
  with assms show ?thesis
    by (simp add: newdomain_preconditions_def apply_evt_newdomain_def Let_def)
qed

lemma newdomain_failure:
  "\<not> newdomain_preconditions ext context \<Longrightarrow>
     \<exists>e. apply_evt_newdomain ext context = (Inl e, mutable_tokendb context)"
  using newdomain_unchanged [of ext "context"] newdomain_success_pre [of ext "context"]
  by (blast intro: raise_unchanged)

lemma issuetoken_unchanged:
  "fst (apply_evt_issuetoken context) = Inr ()
   \<or> snd (apply_evt_issuetoken context) = mutable_tokendb context"
  by (simp add: apply_evt_issuetoken_def Let_def split: sum.splits)

lemma issuetoken_success_iff:
  "fst (apply_evt_issuetoken context) = Inr () \<longleftrightarrow> issuetoken_preconditions context"
  by (auto simp: issuetoken_preconditions_def apply_evt_issuetoken_def Let_def
      simp flip: issuetoken_names_loop_char split: if_splits sum.splits)

lemma transfer_unchanged:
  "fst (apply_evt_transfer context) = Inr ()
   \<or> snd (apply_evt_transfer context) = mutable_tokendb context"
  by (simp add: apply_evt_transfer_def Let_def)

lemma transfer_success_iff:
  "fst (apply_evt_transfer context) = Inr () \<longleftrightarrow> transfer_preconditions context"
  by (auto simp: transfer_preconditions_def apply_evt_transfer_def Let_def split: if_splits)

lemma updategroup_unchanged:
  "fst (apply_evt_updategroup context) = Inr ()
   \<or> snd (apply_evt_updategroup context) = mutable_tokendb context"
  by (simp add: apply_evt_updategroup_def Let_def)

lemma updategroup_success_iff:
  "fst (apply_evt_updategroup context) = Inr () \<longleftrightarrow> updategroup_preconditions context"
  by (auto simp: updategroup_preconditions_def apply_evt_updategroup_def Let_def split: if_splits)

lemma updatedomain_issue_char:
  "updatedomain_issue (make_permission_checker tokendb defs) field = Inr () \<longleftrightarrow>
     updatedomain_field_ok tokendb defs ''issue'' True False field"
  by (auto simp: updatedomain_issue_def updatedomain_field_ok_def make_permission_checker_char
      split: option.splits)

lemma updatedomain_transfer_char:
  "updatedomain_transfer (make_permission_checker tokendb defs) field = Inr () \<longleftrightarrow>
     updatedomain_field_ok tokendb defs ''transfer'' True True field"
  by (auto simp: updatedomain_transfer_def updatedomain_field_ok_def make_permission_checker_char
      split: option.splits)

lemma updatedomain_manage_char:
  "updatedomain_manage (make_permission_checker tokendb defs) field = Inr () \<longleftrightarrow>
     updatedomain_field_ok tokendb defs ''manage'' False False field"
  by (auto simp: updatedomain_manage_def updatedomain_field_ok_def make_permission_checker_char
      split: option.splits)

lemma updatedomain_unchanged:
  "fst (apply_evt_updatedomain ext context) = Inr ()
   \<or> snd (apply_evt_updatedomain ext context) = mutable_tokendb context"
  by (simp add: apply_evt_updatedomain_def Let_def split: sum.splits)

lemma updatedomain_success_pre:
  "fst (apply_evt_updatedomain ext context) = Inr () \<Longrightarrow> updatedomain_preconditions ext context"
  by (simp add: updatedomain_preconditions_def apply_evt_updatedomain_def Let_def
      flip: validate_groups_loop_char updatedomain_issue_char updatedomain_transfer_char
        updatedomain_manage_char
      split: if_splits sum.splits)

lemma updatedomain_success:
  assumes "updatedomain_preconditions ext context"
  shows "fst (apply_evt_updatedomain ext context) = Inr ()"
proof -
  from assms have
    "validate_groups_loop ext (updatedomain.groups (act context)) = Inr ()"
    "updatedomain_issue
       (make_permission_checker (mutable_tokendb context) (updatedomain.groups (act context)))
       (updatedomain.issue (act context)) = Inr ()"
    "updatedomain_transfer
       (make_permission_checker (mutable_tokendb context) (updatedomain.groups (act context)))
       (updatedomain.transfer (act context)) = Inr ()"
    "updatedomain_manage
       (make_permission_checker (mutable_tokendb context) (updatedomain.groups (act context)))
       (updatedomain.manage (act context)) = Inr ()"
    by (simp_all add: updatedomain_preconditions_def validate_groups_loop_char
        updatedomain_issue_char updatedomain_transfer_char updatedomain_manage_char)
  with assms show ?thesis
    by (simp add: updatedomain_preconditions_def apply_evt_updatedomain_def Let_def)
qed

lemma newaccount_unchanged:
  "fst (apply_evt_newaccount ext context) = Inr ()
   \<or> snd (apply_evt_newaccount ext context) = mutable_tokendb context"
  by (simp add: apply_evt_newaccount_def Let_def)

lemma newaccount_success_iff:
  "fst (apply_evt_newaccount ext context) = Inr () \<longleftrightarrow> newaccount_preconditions context"
  by (auto simp: newaccount_preconditions_def apply_evt_newaccount_def Let_def split: if_splits)

lemma updateowner_unchanged:
  "fst (apply_evt_updateowner context) = Inr ()
   \<or> snd (apply_evt_updateowner context) = mutable_tokendb context"
  by (simp add: apply_evt_updateowner_def Let_def)

lemma updateowner_success_iff:
  "fst (apply_evt_updateowner context) = Inr () \<longleftrightarrow> updateowner_preconditions context"
  by (auto simp: updateowner_preconditions_def apply_evt_updateowner_def Let_def split: if_splits)

lemma transferevt_success:
  assumes "transferevt_preconditions context"
    and "read_account (mutable_tokendb context) (transferevt.from' (act context)) = Some fa"
    and "read_account (mutable_tokendb context) (transferevt.to' (act context)) = Some ta"
  shows "apply_evt_transferevt context =
     (Inr (), update_account
        (update_account (mutable_tokendb context)
           (debit (transferevt.from' (act context)) (account_def.balance fa)
              (transferevt.amount (act context))))
        (credit (transferevt.to' (act context)) (account_def.balance ta)
           (transferevt.amount (act context))))"
proof -
  note n = read_account_name [OF assms(2)] read_account_name [OF assms(3)]
  from assms n show ?thesis
    by (simp add: transferevt_preconditions_def apply_evt_transferevt_def Let_def
        test_sub_def test_add_def asset_ge_def asset_minus_def asset_plus_def
        debit_def credit_def updateaccount_default_def)
qed

lemma transferevt_failure:
  assumes "\<not> transferevt_preconditions context"
  shows "\<exists>e. apply_evt_transferevt context = (Inl e, mutable_tokendb context)"
  using assms
  by (auto simp: transferevt_preconditions_def apply_evt_transferevt_def Let_def
      test_sub_def test_add_def asset_ge_def exists_account_read
      split: option.splits)

lemma transferevt_succeeds_iff:
  "fst (apply_evt_transferevt context) = Inr () \<longleftrightarrow> transferevt_preconditions context"
proof
  assume s: "fst (apply_evt_transferevt context) = Inr ()"
  show "transferevt_preconditions context"
  proof (rule ccontr)
    assume "\<not> transferevt_preconditions context"
    from transferevt_failure [OF this] s show False by auto
  qed
next
  assume p: "transferevt_preconditions context"
  then obtain fa ta where
    "read_account (mutable_tokendb context) (transferevt.from' (act context)) = Some fa"
    "read_account (mutable_tokendb context) (transferevt.to' (act context)) = Some ta"
    by (auto simp: transferevt_preconditions_def split: option.splits)
  from transferevt_success [OF p this] show "fst (apply_evt_transferevt context) = Inr ()"
    by simp
qed

lemma newdomain_d1_result:
  "apply_evt_newdomain example_externals newdomain_context =
     (Inr (), [Domain_rec domain_d1, Group_rec group5, Group_rec group6])"
  by (simp add: apply_evt_newdomain_def newdomain_context_def newdomain_d1_def domain_d1_def
      example_externals_def authorize_all_def group5_def group6_def exists_domain_def
      exists_group_def validate_group_def validate_T_def validate_permission_def
      make_permission_checker_def add_domain_def add_group_def Let_def)

text \<open>
  C3. Every handler either returns, which it does when all its preconditions
  hold, or throws an \<^verbatim>\<open>action_validate_exception\<close> and leaves the store as it
  was given: no store write comes before the last check. For
  \<^verbatim>\<open>apply_evt_transferevt\<close> the preconditions include the balance check and
  the two overflow tests.
\<close>

theorem validate_then_commit:
  "(if newdomain_preconditions ext ndctx
    then fst (apply_evt_newdomain ext ndctx) = Inr ()
    else (\<exists>e. apply_evt_newdomain ext ndctx = (Inl e, mutable_tokendb ndctx)))
   \<and> (if issuetoken_preconditions itctx
    then fst (apply_evt_issuetoken itctx) = Inr ()
    else (\<exists>e. apply_evt_issuetoken itctx = (Inl e, mutable_tokendb itctx)))
   \<and> (if transfer_preconditions ttctx
    then fst (apply_evt_transfer ttctx) = Inr ()
    else (\<exists>e. apply_evt_transfer ttctx = (Inl e, mutable_tokendb ttctx)))
   \<and> (if updategroup_preconditions ugctx
    then fst (apply_evt_updategroup ugctx) = Inr ()
    else (\<exists>e. apply_evt_updategroup ugctx = (Inl e, mutable_tokendb ugctx)))
   \<and> (if updatedomain_preconditions ext udctx
    then fst (apply_evt_updatedomain ext udctx) = Inr ()
    else (\<exists>e. apply_evt_updatedomain ext udctx = (Inl e, mutable_tokendb udctx)))
   \<and> (if newaccount_preconditions nactx
    then fst (apply_evt_newaccount ext nactx) = Inr ()
    else (\<exists>e. apply_evt_newaccount ext nactx = (Inl e, mutable_tokendb nactx)))
   \<and> (if updateowner_preconditions uoctx
    then fst (apply_evt_updateowner uoctx) = Inr ()
    else (\<exists>e. apply_evt_updateowner uoctx = (Inl e, mutable_tokendb uoctx)))
   \<and> (if transferevt_preconditions tectx
    then fst (apply_evt_transferevt tectx) = Inr ()
    else (\<exists>e. apply_evt_transferevt tectx = (Inl e, mutable_tokendb tectx)))"
proof -
  have nd: "if newdomain_preconditions ext ndctx
    then fst (apply_evt_newdomain ext ndctx) = Inr ()
    else (\<exists>e. apply_evt_newdomain ext ndctx = (Inl e, mutable_tokendb ndctx))"
    using newdomain_success [of ext ndctx] newdomain_failure [of ext ndctx] by simp
  have it: "if issuetoken_preconditions itctx
    then fst (apply_evt_issuetoken itctx) = Inr ()
    else (\<exists>e. apply_evt_issuetoken itctx = (Inl e, mutable_tokendb itctx))"
    using issuetoken_unchanged [of itctx] issuetoken_success_iff [of itctx]
    by (auto intro: raise_unchanged)
  have tt: "if transfer_preconditions ttctx
    then fst (apply_evt_transfer ttctx) = Inr ()
    else (\<exists>e. apply_evt_transfer ttctx = (Inl e, mutable_tokendb ttctx))"
    using transfer_unchanged [of ttctx] transfer_success_iff [of ttctx]
    by (auto intro: raise_unchanged)
  have ug: "if updategroup_preconditions ugctx
    then fst (apply_evt_updategroup ugctx) = Inr ()
    else (\<exists>e. apply_evt_updategroup ugctx = (Inl e, mutable_tokendb ugctx))"
    using updategroup_unchanged [of ugctx] updategroup_success_iff [of ugctx]
    by (auto intro: raise_unchanged)
  have ud: "if updatedomain_preconditions ext udctx
    then fst (apply_evt_updatedomain ext udctx) = Inr ()
    else (\<exists>e. apply_evt_updatedomain ext udctx = (Inl e, mutable_tokendb udctx))"
    using updatedomain_unchanged [of ext udctx] updatedomain_success_pre [of ext udctx]
      updatedomain_success [of ext udctx]
    by (auto intro: raise_unchanged)
  have na: "if newaccount_preconditions nactx
    then fst (apply_evt_newaccount ext nactx) = Inr ()
    else (\<exists>e. apply_evt_newaccount ext nactx = (Inl e, mutable_tokendb nactx))"
    using newaccount_unchanged [of ext nactx] newaccount_success_iff [of ext nactx]
    by (auto intro: raise_unchanged)
  have uo: "if updateowner_preconditions uoctx
    then fst (apply_evt_updateowner uoctx) = Inr ()
    else (\<exists>e. apply_evt_updateowner uoctx = (Inl e, mutable_tokendb uoctx))"
    using updateowner_unchanged [of uoctx] updateowner_success_iff [of uoctx]
    by (auto intro: raise_unchanged)
  have te: "if transferevt_preconditions tectx
    then fst (apply_evt_transferevt tectx) = Inr ()
    else (\<exists>e. apply_evt_transferevt tectx = (Inl e, mutable_tokendb tectx))"
    using transferevt_succeeds_iff [of tectx] transferevt_failure [of tectx] by simp
  from nd it tt ug ud na uo te show ?thesis
    by (intro conjI)
qed

text \<open>
  The theorem at three transfers on the example ledger: 20000 from alice
  (who holds 10000) to bob fails on the balance check, 100 from alice to carol
  (who holds the largest amount) fails on the overflow test, both leaving the
  store as it was; 100 from alice to bob meets the preconditions and returns.
\<close>

theorem validate_then_commit_witness:
  "\<not> transferevt_preconditions (transferevt_context ''alice'' ''bob'' 20000)
   \<and> (\<exists>e. apply_evt_transferevt (transferevt_context ''alice'' ''bob'' 20000) =
          (Inl e, [Account_rec alice, Account_rec bob, Account_rec carol]))
   \<and> \<not> transferevt_preconditions (transferevt_context ''alice'' ''carol'' 100)
   \<and> (\<exists>e. apply_evt_transferevt (transferevt_context ''alice'' ''carol'' 100) =
          (Inl e, [Account_rec alice, Account_rec bob, Account_rec carol]))
   \<and> transferevt_preconditions (transferevt_context ''alice'' ''bob'' 100)
   \<and> fst (apply_evt_transferevt (transferevt_context ''alice'' ''bob'' 100)) = Inr ()"
proof -
  have a: "\<not> transferevt_preconditions (transferevt_context ''alice'' ''bob'' 20000)"
    by (simp add: transferevt_preconditions_def transferevt_context_def read_account_def
        alice_def bob_def carol_def)
  have b: "\<not> transferevt_preconditions (transferevt_context ''alice'' ''carol'' 100)"
    by (simp add: transferevt_preconditions_def transferevt_context_def read_account_def
        alice_def bob_def carol_def in_int64_range_def)
  have c: "transferevt_preconditions (transferevt_context ''alice'' ''bob'' 100)"
    by (simp add: transferevt_preconditions_def transferevt_context_def read_account_def
        exists_account_def authorize_all_def alice_def bob_def carol_def in_int64_range_def)
  have m: "mutable_tokendb (transferevt_context f t x) =
      [Account_rec alice, Account_rec bob, Account_rec carol]" for f t x
    by (simp add: transferevt_context_def)
  from validate_then_commit [where tectx = "transferevt_context ''alice'' ''bob'' 20000"]
    validate_then_commit [where tectx = "transferevt_context ''alice'' ''carol'' 100"]
    validate_then_commit [where tectx = "transferevt_context ''alice'' ''bob'' 100"]
  show ?thesis
    using a b c by (simp add: m)
qed

section \<open>Transfers between accounts\<close>

lemma sint_exact_minus:
  "in_int64_range (sint a - sint b) \<Longrightarrow> sint (a - b) = sint a - sint (b :: int64_t)"
  by (simp add: in_int64_range_def sint_word_ariths signed_take_bit_int_eq_self)

lemma sint_int64_bounds: "- (2 ^ 63) \<le> sint (a :: int64_t) \<and> sint a < 2 ^ 63"
  using sint_ge [of a] sint_lt [of a] by simp

lemma balance_debit:
  "account_def.balance (update_account_fields (debit n b a) x) =
     b\<lparr>asset.amount := asset.amount b - asset.amount a - asset.amount a\<rparr>"
  by (simp add: update_account_fields_def debit_def supplied_def)

lemma balance_credit:
  "account_def.balance (update_account_fields (credit n b a) x) =
     b\<lparr>asset.amount := asset.amount b + asset.amount a + asset.amount a\<rparr>"
  by (simp add: update_account_fields_def credit_def supplied_def)

lemma name_debit: "updateaccount.name (debit n b a) = n"
  by (simp add: debit_def)

lemma name_credit: "updateaccount.name (credit n b a) = n"
  by (simp add: credit_def)

text \<open>
  What a returning transfer between two different accounts stores: the amount
  is taken from \<^verbatim>\<open>from\<close> twice and added to \<^verbatim>\<open>to\<close> twice, once by the checked
  operation and once by the handler's own \<^verbatim>\<open>-=\<close> and \<^verbatim>\<open>+=\<close>. The debit is
  exact as a number (it cannot wrap); the second credit is a plain 64-bit
  addition.
\<close>

lemma transferevt_applies_twice:
  assumes "fst (apply_evt_transferevt context) = Inr ()"
    and "transferevt.from' (act context) \<noteq> transferevt.to' (act context)"
  shows "\<exists>fa ta.
      read_account (mutable_tokendb context) (transferevt.from' (act context)) = Some fa
    \<and> read_account (mutable_tokendb context) (transferevt.to' (act context)) = Some ta
    \<and> map_option (\<lambda>x. asset.amount (account_def.balance x))
        (read_account (snd (apply_evt_transferevt context)) (transferevt.from' (act context))) =
        Some (asset.amount (account_def.balance fa)
                - asset.amount (transferevt.amount (act context))
                - asset.amount (transferevt.amount (act context)))
    \<and> map_option (\<lambda>x. asset.amount (account_def.balance x))
        (read_account (snd (apply_evt_transferevt context)) (transferevt.to' (act context))) =
        Some (asset.amount (account_def.balance ta)
                + asset.amount (transferevt.amount (act context))
                + asset.amount (transferevt.amount (act context)))
    \<and> stored_balance (snd (apply_evt_transferevt context)) (transferevt.from' (act context)) =
        Some (sint (asset.amount (account_def.balance fa))
                - 2 * sint (asset.amount (transferevt.amount (act context))))"
proof -
  from assms(1) have p: "transferevt_preconditions context"
    by (simp add: transferevt_succeeds_iff)
  then obtain fa ta where
    r: "read_account (mutable_tokendb context) (transferevt.from' (act context)) = Some fa"
       "read_account (mutable_tokendb context) (transferevt.to' (act context)) = Some ta"
    by (auto simp: transferevt_preconditions_def split: option.splits)
  from p r have
    f: "in_int64_range (sint (asset.amount (account_def.balance fa))
          - sint (asset.amount (transferevt.amount (act context))))" and
    a: "0 < sint (asset.amount (transferevt.amount (act context)))" and
    g: "sint (asset.amount (transferevt.amount (act context)))
          \<le> sint (asset.amount (account_def.balance fa))"
    by (simp_all add: transferevt_preconditions_def)
  have f2: "in_int64_range
      (sint (asset.amount (account_def.balance fa) - asset.amount (transferevt.amount (act context)))
        - sint (asset.amount (transferevt.amount (act context))))"
    using a g sint_int64_bounds [of "asset.amount (account_def.balance fa)"]
      sint_int64_bounds [of "asset.amount (transferevt.amount (act context))"]
    by (simp add: sint_exact_minus [OF f] in_int64_range_def)
  have e: "sint (asset.amount (account_def.balance fa)
              - asset.amount (transferevt.amount (act context))
              - asset.amount (transferevt.amount (act context))) =
           sint (asset.amount (account_def.balance fa))
              - 2 * sint (asset.amount (transferevt.amount (act context)))"
    by (simp only: sint_exact_minus [OF f2] sint_exact_minus [OF f])
  show ?thesis
    using assms(2) r e
    by (simp add: transferevt_success [OF p r] stored_balance_def read_update_account
        name_debit name_credit balance_debit balance_credit)
qed


text \<open>
  A transfer of an account to itself that returns raises the stored balance:
  both local copies hold the balance read before any write, and the second
  write, the credit, replaces the first. The balance stored is the one of the
  credited copy.
\<close>

lemma transferevt_self_transfer:
  assumes "fst (apply_evt_transferevt context) = Inr ()"
    and "transferevt.from' (act context) = transferevt.to' (act context)"
  shows "\<exists>fa.
      read_account (mutable_tokendb context) (transferevt.from' (act context)) = Some fa
    \<and> map_option (\<lambda>x. asset.amount (account_def.balance x))
        (read_account (snd (apply_evt_transferevt context)) (transferevt.from' (act context))) =
        Some (asset.amount (account_def.balance fa)
                + asset.amount (transferevt.amount (act context))
                + asset.amount (transferevt.amount (act context)))"
proof -
  from assms(1) have p: "transferevt_preconditions context"
    by (simp add: transferevt_succeeds_iff)
  then obtain fa ta where
    r: "read_account (mutable_tokendb context) (transferevt.from' (act context)) = Some fa"
       "read_account (mutable_tokendb context) (transferevt.to' (act context)) = Some ta"
    by (auto simp: transferevt_preconditions_def split: option.splits)
  from r assms(2) have e: "ta = fa" by simp
  show ?thesis
    using assms(2) r e
    by (simp add: transferevt_success [OF p r] read_update_account
        name_debit name_credit balance_debit balance_credit)
qed

text \<open>
  C2 fails on the code. On the example ledger, alice transferring 100 to
  herself passes every check, and the store then holds 10200 for her where it
  held 10000: the sum of the stored balances has grown. The debit written
  first (9800) is replaced by the credit computed from the balance read before
  any write.
\<close>

theorem transferevt_self_transfer_creates_value:
  "apply_evt_transferevt (transferevt_context ''alice'' ''alice'' 100) =
     (Inr (), [Account_rec (alice\<lparr>account_def.balance := \<lparr>asset.amount = 10200\<rparr>\<rparr>),
               Account_rec bob, Account_rec carol])
   \<and> stored_balance (mutable_tokendb (transferevt_context ''alice'' ''alice'' 100)) ''alice''
       = Some 10000
   \<and> stored_balance (snd (apply_evt_transferevt (transferevt_context ''alice'' ''alice'' 100)))
       ''alice'' = Some 10200"
  by (simp add: apply_evt_transferevt_def transferevt_context_def authorize_all_def alice_def
      bob_def carol_def exists_account_def read_account_def asset_ge_def test_sub_def test_add_def
      in_int64_range_def asset_minus_def asset_plus_def updateaccount_default_def
      update_account_def update_account_fields_def supplied_def Let_def stored_balance_def)

section \<open>Authorization scopes of the domain handlers\<close>

lemma validate_groups_loop_msg:
  "validate_groups_loop ext gs \<noteq> Inl unauthorized"
  by (induction gs) (simp_all add: unauthorized_def)

lemma permission_checker_loop_msg:
  "permission_checker_loop tokendb defs allowed_owner gs \<noteq> Inl unauthorized"
  by (induction gs) (auto simp: unauthorized_def Let_def)

lemma updatedomain_issue_msg:
  "updatedomain_issue (make_permission_checker tokendb defs) field \<noteq> Inl unauthorized"
  using permission_checker_loop_msg
  by (simp add: updatedomain_issue_def make_permission_checker_def unauthorized_def
      split: option.splits)

lemma updatedomain_transfer_msg:
  "updatedomain_transfer (make_permission_checker tokendb defs) field \<noteq> Inl unauthorized"
  using permission_checker_loop_msg
  by (simp add: updatedomain_transfer_def make_permission_checker_def unauthorized_def
      split: option.splits)

lemma updatedomain_manage_msg:
  "updatedomain_manage (make_permission_checker tokendb defs) field \<noteq> Inl unauthorized"
  using permission_checker_loop_msg
  by (simp add: updatedomain_manage_def make_permission_checker_def unauthorized_def
      split: option.splits)

lemma updatedomain_unauthorized_iff:
  "fst (apply_evt_updatedomain ext context) = Inl unauthorized \<longleftrightarrow>
     \<not> has_authorized context (updatedomain.name (act context)) (Name_key ''manage'')"
  using validate_groups_loop_msg [of ext "updatedomain.groups (act context)"]
    updatedomain_issue_msg [of "mutable_tokendb context" "updatedomain.groups (act context)"
      "updatedomain.issue (act context)"]
    updatedomain_transfer_msg [of "mutable_tokendb context" "updatedomain.groups (act context)"
      "updatedomain.transfer (act context)"]
    updatedomain_manage_msg [of "mutable_tokendb context" "updatedomain.groups (act context)"
      "updatedomain.manage (act context)"]
  by (auto simp: apply_evt_updatedomain_def Let_def unauthorized_def split: sum.splits)

lemma newdomain_unauthorized_iff:
  "fst (apply_evt_newdomain ext context) = Inl unauthorized \<longleftrightarrow>
     \<not> has_authorized context ''domain'' (Name_key (newdomain.name (act context)))"
  using validate_groups_loop_msg [of ext "newdomain.groups (act context)"]
    permission_checker_loop_msg [of "mutable_tokendb context" "newdomain.groups (act context)"
      False "permission_def.groups (newdomain.issue (act context))"]
    permission_checker_loop_msg [of "mutable_tokendb context" "newdomain.groups (act context)"
      True "permission_def.groups (newdomain.transfer (act context))"]
    permission_checker_loop_msg [of "mutable_tokendb context" "newdomain.groups (act context)"
      False "permission_def.groups (newdomain.manage (act context))"]
  by (auto simp: apply_evt_newdomain_def Let_def unauthorized_def make_permission_checker_def
      split: sum.splits)

text \<open>
  C4 (as amended). \<^verbatim>\<open>apply_evt_updatedomain\<close> passes its first check if and
  only if the oracle answers yes for the scope whose kind is the domain's name
  and whose key is \<^verbatim>\<open>manage\<close>; \<^verbatim>\<open>apply_evt_newdomain\<close> passes its first
  check if and only if the oracle answers yes for the kind \<^verbatim>\<open>domain\<close> with the
  domain's name as the key.
\<close>

theorem updatedomain_authorization_scope:
  "(fst (apply_evt_updatedomain ext udctx) \<noteq> Inl unauthorized \<longleftrightarrow>
      has_authorized udctx (updatedomain.name (act udctx)) (Name_key ''manage''))
   \<and> (fst (apply_evt_newdomain ext ndctx) \<noteq> Inl unauthorized \<longleftrightarrow>
      has_authorized ndctx ''domain'' (Name_key (newdomain.name (act ndctx))))"
  by (simp add: updatedomain_unauthorized_iff newdomain_unauthorized_iff)

text \<open>
  The theorem with an oracle that answers yes for the key \<^verbatim>\<open>manage\<close> only:
  the update of domain d1 passes the first check, although the oracle answers
  no for the kind \<^verbatim>\<open>domain\<close> with key d1.
\<close>

theorem updatedomain_authorization_scope_witness:
  "has_authorized (updatedomain_context authorize_manage_key) ''d1'' (Name_key ''manage'')
   \<and> \<not> has_authorized (updatedomain_context authorize_manage_key) ''domain'' (Name_key ''d1'')
   \<and> fst (apply_evt_updatedomain example_externals (updatedomain_context authorize_manage_key))
       \<noteq> Inl unauthorized
   \<and> has_authorized newdomain_context ''domain'' (Name_key ''d1'')
   \<and> fst (apply_evt_newdomain example_externals newdomain_context) \<noteq> Inl unauthorized"
  using updatedomain_authorization_scope [of example_externals
      "updatedomain_context authorize_manage_key" newdomain_context]
  by (simp add: updatedomain_context_def authorize_manage_key_def newdomain_context_def
      newdomain_d1_def authorize_all_def)

lemma updatedomain_domain_kind_result:
  "apply_evt_updatedomain example_externals (updatedomain_context authorize_domain_kind) =
     (Inl unauthorized, [Domain_rec domain_d1])"
  by (simp add: apply_evt_updatedomain_def updatedomain_context_def authorize_domain_kind_def
      unauthorized_def)

text \<open>
  C4 as stated fails: with an oracle that answers yes for every scope of kind
  \<^verbatim>\<open>domain\<close> and no otherwise, the update of domain d1 is thrown out at the
  first check.
\<close>

theorem updatedomain_domain_scope_counterexample:
  "\<not> (fst (apply_evt_updatedomain example_externals (updatedomain_context authorize_domain_kind))
         \<noteq> Inl unauthorized
       \<longleftrightarrow>
       has_authorized (updatedomain_context authorize_domain_kind) ''domain''
         (Name_key (updatedomain.name (act (updatedomain_context authorize_domain_kind)))))"
  by (simp add: updatedomain_domain_kind_result)
     (simp add: updatedomain_context_def authorize_domain_kind_def)

section \<open>The group resolver and the owner group\<close>

text \<open>
  C7. The checker of a permission passes if and only if every entry is
  accepted; an entry with a non-empty id is accepted if and only if exactly
  one of "the id exists in the store" and "the id is among the inline
  definitions" holds, an entry with the empty id if and only if the owner group
  is allowed. \<^verbatim>\<open>apply_evt_newdomain\<close> returns if and only if its other checks
  pass and every entry of \<^verbatim>\<open>issue\<close> and of \<^verbatim>\<open>manage\<close> is accepted with the
  owner group not allowed and every entry of \<^verbatim>\<open>transfer\<close> is accepted with
  the owner group allowed; so it allows the owner group for \<^verbatim>\<open>transfer\<close> and,
  where it returns, no entry of \<^verbatim>\<open>issue\<close> or \<^verbatim>\<open>manage\<close> has the empty id.
  \<^verbatim>\<open>apply_evt_updatedomain\<close> does the same for the permissions it is given.
\<close>

theorem group_resolver_accepts:
  "(make_permission_checker tokendb defs p allowed_owner = Inr () \<longleftrightarrow>
      list_all (group_reference_accepted tokendb defs allowed_owner) (permission_def.groups p))
   \<and> (group_reference_accepted tokendb defs allowed_owner g \<longleftrightarrow>
        (if group_weight.id g = 0 then allowed_owner
         else exists_group tokendb (group_weight.id g)
              \<noteq> list_ex (\<lambda>gd. group_def.id gd = group_weight.id g) defs))
   \<and> (fst (apply_evt_newdomain ext context) = Inr () \<longleftrightarrow>
        has_authorized context ''domain'' (Name_key (newdomain.name (act context)))
      \<and> \<not> exists_domain (mutable_tokendb context) (newdomain.name (act context))
      \<and> list_all (inline_group_valid ext) (newdomain.groups (act context))
      \<and> newdomain.name (act context) \<noteq> []
      \<and> permission_def.name (newdomain.issue (act context)) = ''issue''
      \<and> 0 < permission_def.threshold (newdomain.issue (act context))
      \<and> validate_permission (newdomain.issue (act context))
      \<and> permission_def.name (newdomain.transfer (act context)) = ''transfer''
      \<and> 0 < permission_def.threshold (newdomain.transfer (act context))
      \<and> validate_permission (newdomain.transfer (act context))
      \<and> permission_def.name (newdomain.manage (act context)) = ''manage''
      \<and> validate_permission (newdomain.manage (act context))
      \<and> list_all (group_reference_accepted (mutable_tokendb context)
                    (newdomain.groups (act context)) False)
          (permission_def.groups (newdomain.issue (act context)))
      \<and> list_all (group_reference_accepted (mutable_tokendb context)
                    (newdomain.groups (act context)) True)
          (permission_def.groups (newdomain.transfer (act context)))
      \<and> list_all (group_reference_accepted (mutable_tokendb context)
                    (newdomain.groups (act context)) False)
          (permission_def.groups (newdomain.manage (act context))))
   \<and> (fst (apply_evt_newdomain ext context) = Inr () \<longrightarrow>
        list_all (group_reference_accepted (mutable_tokendb context)
                    (newdomain.groups (act context)) False)
          (permission_def.groups (newdomain.issue (act context)))
      \<and> list_all (group_reference_accepted (mutable_tokendb context)
                    (newdomain.groups (act context)) True)
          (permission_def.groups (newdomain.transfer (act context)))
      \<and> list_all (group_reference_accepted (mutable_tokendb context)
                    (newdomain.groups (act context)) False)
          (permission_def.groups (newdomain.manage (act context)))
      \<and> list_all (\<lambda>g. group_weight.id g \<noteq> 0)
          (permission_def.groups (newdomain.issue (act context)))
      \<and> list_all (\<lambda>g. group_weight.id g \<noteq> 0)
          (permission_def.groups (newdomain.manage (act context))))
   \<and> (fst (apply_evt_updatedomain ext udctx) = Inr () \<longleftrightarrow> updatedomain_preconditions ext udctx)
   \<and> (fst (apply_evt_updatedomain ext udctx) = Inr () \<longrightarrow>
        (case updatedomain.issue (act udctx) of
           None \<Rightarrow> True
         | Some q \<Rightarrow>
             list_all (group_reference_accepted (mutable_tokendb udctx)
                         (updatedomain.groups (act udctx)) False) (permission_def.groups q)
             \<and> list_all (\<lambda>g. group_weight.id g \<noteq> 0) (permission_def.groups q))
      \<and> (case updatedomain.transfer (act udctx) of
           None \<Rightarrow> True
         | Some q \<Rightarrow>
             list_all (group_reference_accepted (mutable_tokendb udctx)
                         (updatedomain.groups (act udctx)) True) (permission_def.groups q))
      \<and> (case updatedomain.manage (act udctx) of
           None \<Rightarrow> True
         | Some q \<Rightarrow>
             list_all (group_reference_accepted (mutable_tokendb udctx)
                         (updatedomain.groups (act udctx)) False) (permission_def.groups q)
             \<and> list_all (\<lambda>g. group_weight.id g \<noteq> 0) (permission_def.groups q)))"
proof -
  have no_owner: "list_all (\<lambda>g. group_weight.id g \<noteq> 0) gs"
    if "list_all (group_reference_accepted db ds False) gs" for db ds gs
    using that by (induction gs) (auto simp: group_reference_accepted_def)
  have en: "(group_reference_accepted tokendb defs allowed_owner g \<longleftrightarrow>
        (if group_weight.id g = 0 then allowed_owner
         else exists_group tokendb (group_weight.id g)
              \<noteq> list_ex (\<lambda>gd. group_def.id gd = group_weight.id g) defs))"
    by (auto simp: group_reference_accepted_def defined_inline_def)
  have ni: "(fst (apply_evt_newdomain ext context) = Inr () \<longleftrightarrow>
        has_authorized context ''domain'' (Name_key (newdomain.name (act context)))
      \<and> \<not> exists_domain (mutable_tokendb context) (newdomain.name (act context))
      \<and> list_all (inline_group_valid ext) (newdomain.groups (act context))
      \<and> newdomain.name (act context) \<noteq> []
      \<and> permission_def.name (newdomain.issue (act context)) = ''issue''
      \<and> 0 < permission_def.threshold (newdomain.issue (act context))
      \<and> validate_permission (newdomain.issue (act context))
      \<and> permission_def.name (newdomain.transfer (act context)) = ''transfer''
      \<and> 0 < permission_def.threshold (newdomain.transfer (act context))
      \<and> validate_permission (newdomain.transfer (act context))
      \<and> permission_def.name (newdomain.manage (act context)) = ''manage''
      \<and> validate_permission (newdomain.manage (act context))
      \<and> list_all (group_reference_accepted (mutable_tokendb context)
                    (newdomain.groups (act context)) False)
          (permission_def.groups (newdomain.issue (act context)))
      \<and> list_all (group_reference_accepted (mutable_tokendb context)
                    (newdomain.groups (act context)) True)
          (permission_def.groups (newdomain.transfer (act context)))
      \<and> list_all (group_reference_accepted (mutable_tokendb context)
                    (newdomain.groups (act context)) False)
          (permission_def.groups (newdomain.manage (act context))))"
  proof -
    have "fst (apply_evt_newdomain ext context) = Inr () \<longleftrightarrow>
        newdomain_preconditions ext context"
      using newdomain_success_pre [of ext "context"] newdomain_success [of ext "context"]
      by blast
    then show ?thesis
      by (simp only: newdomain_preconditions_def)
  qed
  have nd: "(fst (apply_evt_newdomain ext context) = Inr () \<longrightarrow>
        list_all (group_reference_accepted (mutable_tokendb context)
                    (newdomain.groups (act context)) False)
          (permission_def.groups (newdomain.issue (act context)))
      \<and> list_all (group_reference_accepted (mutable_tokendb context)
                    (newdomain.groups (act context)) True)
          (permission_def.groups (newdomain.transfer (act context)))
      \<and> list_all (group_reference_accepted (mutable_tokendb context)
                    (newdomain.groups (act context)) False)
          (permission_def.groups (newdomain.manage (act context)))
      \<and> list_all (\<lambda>g. group_weight.id g \<noteq> 0)
          (permission_def.groups (newdomain.issue (act context)))
      \<and> list_all (\<lambda>g. group_weight.id g \<noteq> 0)
          (permission_def.groups (newdomain.manage (act context))))"
    using newdomain_success_pre [of ext "context"]
    by (auto simp: newdomain_preconditions_def intro: no_owner)
  have ui: "fst (apply_evt_updatedomain ext udctx) = Inr () \<longleftrightarrow>
      updatedomain_preconditions ext udctx"
    using updatedomain_success_pre [of ext udctx] updatedomain_success [of ext udctx]
    by blast
  have ud: "(fst (apply_evt_updatedomain ext udctx) = Inr () \<longrightarrow>
        (case updatedomain.issue (act udctx) of
           None \<Rightarrow> True
         | Some q \<Rightarrow>
             list_all (group_reference_accepted (mutable_tokendb udctx)
                         (updatedomain.groups (act udctx)) False) (permission_def.groups q)
             \<and> list_all (\<lambda>g. group_weight.id g \<noteq> 0) (permission_def.groups q))
      \<and> (case updatedomain.transfer (act udctx) of
           None \<Rightarrow> True
         | Some q \<Rightarrow>
             list_all (group_reference_accepted (mutable_tokendb udctx)
                         (updatedomain.groups (act udctx)) True) (permission_def.groups q))
      \<and> (case updatedomain.manage (act udctx) of
           None \<Rightarrow> True
         | Some q \<Rightarrow>
             list_all (group_reference_accepted (mutable_tokendb udctx)
                         (updatedomain.groups (act udctx)) False) (permission_def.groups q)
             \<and> list_all (\<lambda>g. group_weight.id g \<noteq> 0) (permission_def.groups q)))"
    using updatedomain_success_pre [of ext udctx]
    by (auto simp: updatedomain_preconditions_def updatedomain_field_ok_def
        split: option.splits intro: no_owner)
  from en ni nd ui ud show ?thesis
    by (simp only: make_permission_checker_char simp_thms)
qed

text \<open>
  The theorem at the example domain, whose transfer permission names the inline
  group 5 and the owner group: every check passes and the handler returns. The
  same permission is refused by the checker where the owner group is not
  allowed, and the same domain with the owner group named in the issue
  permission as well is refused by the handler.
\<close>

theorem group_resolver_accepts_witness:
  "fst (apply_evt_newdomain example_externals newdomain_context) = Inr ()
   \<and> list_all (group_reference_accepted [] [group5, group6] True)
       [\<lparr>group_weight.id = 5, weight = 1\<rparr>, \<lparr>group_weight.id = 0, weight = 1\<rparr>]
   \<and> make_permission_checker [] [group5, group6] (newdomain.transfer newdomain_d1) True = Inr ()
   \<and> make_permission_checker [] [group5, group6] (newdomain.transfer newdomain_d1) False \<noteq> Inr ()
   \<and> fst (apply_evt_newdomain example_externals newdomain_owner_in_issue) \<noteq> Inr ()"
proof -
  have a: "list_all (group_reference_accepted [] [group5, group6] True)
       [\<lparr>group_weight.id = 5, weight = 1\<rparr>, \<lparr>group_weight.id = 0, weight = 1\<rparr>]"
    by (simp add: group_reference_accepted_def defined_inline_def exists_group_def group5_def
        group6_def)
  have b: "\<not> list_all (group_reference_accepted [] [group5, group6] False)
       [\<lparr>group_weight.id = 5, weight = 1\<rparr>, \<lparr>group_weight.id = 0, weight = 1\<rparr>]"
    by (simp add: group_reference_accepted_def)
  have b0: "\<not> group_reference_accepted [] [group5, group6] False
       \<lparr>group_weight.id = 0, weight = 1\<rparr>"
    by (simp add: group_reference_accepted_def)
  have c: "list_all (group_reference_accepted [] [group5, group6] False)
       [\<lparr>group_weight.id = 5, weight = 1\<rparr>]"
    by (simp add: group_reference_accepted_def defined_inline_def exists_group_def group5_def
        group6_def)
  have v: "list_all (inline_group_valid example_externals) [group5, group6]"
    by (simp add: inline_group_valid_def example_externals_def group5_def group6_def
        validate_group_def validate_T_def)
  have w: "validate_permission \<lparr>permission_def.name = ''issue'', threshold = 1,
               groups = [\<lparr>group_weight.id = 5, weight = 1\<rparr>]\<rparr>"
    "validate_permission \<lparr>permission_def.name = ''transfer'', threshold = 1,
               groups = [\<lparr>group_weight.id = 5, weight = 1\<rparr>,
                         \<lparr>group_weight.id = 0, weight = 1\<rparr>]\<rparr>"
    "validate_permission \<lparr>permission_def.name = ''manage'', threshold = 0, groups = []\<rparr>"
    by (simp_all add: validate_permission_def)
  note t1 = group_resolver_accepts [of "[]" "[group5, group6]" "newdomain.transfer newdomain_d1"
      True "\<lparr>group_weight.id = 0, weight = 1\<rparr>" example_externals newdomain_context
      "updatedomain_context authorize_manage_key"]
  note t2 = group_resolver_accepts [of "[]" "[group5, group6]" "newdomain.transfer newdomain_d1"
      False "\<lparr>group_weight.id = 0, weight = 1\<rparr>" example_externals newdomain_owner_in_issue
      "updatedomain_context authorize_manage_key"]
  have p1: "make_permission_checker [] [group5, group6] (newdomain.transfer newdomain_d1) True
      = Inr ()"
    using t1 [THEN conjunct1] a by (simp add: newdomain_d1_def)
  have p2: "make_permission_checker [] [group5, group6] (newdomain.transfer newdomain_d1) False
      \<noteq> Inr ()"
    using t2 [THEN conjunct1] b by (simp add: newdomain_d1_def)
  have s1: "fst (apply_evt_newdomain example_externals newdomain_context) = Inr ()"
    using t1 [THEN conjunct2, THEN conjunct2, THEN conjunct1] a c v w
    by (simp add: newdomain_d1_def newdomain_context_def authorize_all_def exists_domain_def)
  have s2: "fst (apply_evt_newdomain example_externals newdomain_owner_in_issue) \<noteq> Inr ()"
    using t2 [THEN conjunct2, THEN conjunct2, THEN conjunct1] b0
    by (simp add: newdomain_d1_def newdomain_owner_in_issue_def)
  from s1 a p1 p2 s2 show ?thesis
    by (intro conjI)
qed

section \<open>New accounts\<close>

text \<open>
  C8. Where \<^verbatim>\<open>apply_evt_newaccount\<close> returns, reading the account back from
  the store gives the balance 10000, the frozen balance 0, the system account
  as creator and the owner of the action.
\<close>

theorem newaccount_read_back:
  assumes "fst (apply_evt_newaccount ext context) = Inr ()"
  shows "read_account (snd (apply_evt_newaccount ext context)) (newaccount.name (act context)) =
           Some \<lparr>account_def.name = newaccount.name (act context),
                 creator = system_account_name ext,
                 balance = \<lparr>asset.amount = 10000\<rparr>,
                 frozen_balance = \<lparr>asset.amount = 0\<rparr>,
                 owner = newaccount.owner (act context)\<rparr>"
  using assms
  by (simp add: apply_evt_newaccount_def Let_def add_account_def read_account_not_exists
      account_def_default_def split: if_splits)

text \<open>
  The theorem for the account alice created on an empty ledger.
\<close>

theorem newaccount_read_back_witness:
  "fst (apply_evt_newaccount example_externals
          \<lparr>act = \<lparr>newaccount.name = ''alice'', owner = [7]\<rparr>,
           has_authorized = authorize_all, head_block_time = 0, mutable_tokendb = []\<rparr>) = Inr ()
   \<and> read_account (snd (apply_evt_newaccount example_externals
          \<lparr>act = \<lparr>newaccount.name = ''alice'', owner = [7]\<rparr>,
           has_authorized = authorize_all, head_block_time = 0, mutable_tokendb = []\<rparr>)) ''alice'' =
        Some \<lparr>account_def.name = ''alice'', creator = ''evt'',
              balance = \<lparr>asset.amount = 10000\<rparr>, frozen_balance = \<lparr>asset.amount = 0\<rparr>,
              owner = [7]\<rparr>"
proof -
  have h: "fst (apply_evt_newaccount example_externals
          \<lparr>act = \<lparr>newaccount.name = ''alice'', owner = [7]\<rparr>,
           has_authorized = authorize_all, head_block_time = 0, mutable_tokendb = []\<rparr>) = Inr ()"
    by (simp add: apply_evt_newaccount_def authorize_all_def exists_account_def)
  show ?thesis
    using h newaccount_read_back [OF h] by (simp add: example_externals_def)
qed

section \<open>New domains\<close>

text \<open>
  C9. Where \<^verbatim>\<open>apply_evt_newdomain\<close> returns, the store is the one it was
  given followed by the domain record and then one group record for every
  inline group of the action, in the order of the action, whether or not a
  permission refers to the group.
\<close>

theorem newdomain_persists_groups:
  assumes "fst (apply_evt_newdomain ext context) = Inr ()"
  shows "snd (apply_evt_newdomain ext context) =
           mutable_tokendb context
           @ Domain_rec \<lparr>domain_def.name = newdomain.name (act context),
                         issuer = newdomain.issuer (act context),
                         issue_time = head_block_time context,
                         issue = newdomain.issue (act context),
                         transfer = newdomain.transfer (act context),
                         manage = newdomain.manage (act context)\<rparr>
           # map Group_rec (newdomain.groups (act context))"
  using assms
  by (simp add: apply_evt_newdomain_def Let_def foldl_add_group add_domain_def
      split: if_splits sum.splits)

text \<open>
  The theorem at the example domain: group 6 is referenced by no permission
  and is stored, after group 5 and the domain.
\<close>

theorem newdomain_persists_groups_witness:
  "fst (apply_evt_newdomain example_externals newdomain_context) = Inr ()
   \<and> snd (apply_evt_newdomain example_externals newdomain_context) =
       [Domain_rec domain_d1, Group_rec group5, Group_rec group6]
   \<and> group_def.id group6 \<notin> set (map group_weight.id
         (permission_def.groups (newdomain.issue newdomain_d1)
          @ permission_def.groups (newdomain.transfer newdomain_d1)
          @ permission_def.groups (newdomain.manage newdomain_d1)))"
proof -
  have s: "fst (apply_evt_newdomain example_externals newdomain_context) = Inr ()"
    by (simp add: newdomain_d1_result)
  from newdomain_persists_groups [OF s] show ?thesis
    using s by (simp add: newdomain_context_def newdomain_d1_def domain_d1_def group6_def)
qed

section \<open>Issuing no token\<close>

text \<open>
  C10. An \<^verbatim>\<open>issuetoken\<close> action with no names that is authorized, names an
  existing domain and has a non-empty owner returns; \<^verbatim>\<open>issue_tokens\<close> is called
  with the empty batch and the store is left as it was.
\<close>

theorem issuetoken_empty_names:
  assumes "issuetoken.names (act context) = []"
    and "has_authorized context (issuetoken.domain (act context)) (Name_key ''issue'')"
    and "exists_domain (mutable_tokendb context) (issuetoken.domain (act context))"
    and "issuetoken.owner (act context) \<noteq> []"
  shows "apply_evt_issuetoken context =
           (Inr (), issue_tokens (mutable_tokendb context) (act context))
         \<and> issue_tokens (mutable_tokendb context) (act context) = mutable_tokendb context"
  using assms by (simp add: apply_evt_issuetoken_def Let_def issue_tokens_def)

text \<open>
  The theorem for domain d1 on a ledger holding that domain.
\<close>

theorem issuetoken_empty_names_witness:
  "issuetoken.names (act issuetoken_context) = []
   \<and> has_authorized issuetoken_context (issuetoken.domain (act issuetoken_context))
         (Name_key ''issue'')
   \<and> exists_domain (mutable_tokendb issuetoken_context)
         (issuetoken.domain (act issuetoken_context))
   \<and> issuetoken.owner (act issuetoken_context) \<noteq> []
   \<and> apply_evt_issuetoken issuetoken_context = (Inr (), [Domain_rec domain_d1])"
proof -
  have h: "issuetoken.names (act issuetoken_context) = []"
    "has_authorized issuetoken_context (issuetoken.domain (act issuetoken_context))
       (Name_key ''issue'')"
    "exists_domain (mutable_tokendb issuetoken_context)
       (issuetoken.domain (act issuetoken_context))"
    "issuetoken.owner (act issuetoken_context) \<noteq> []"
    by (simp_all add: issuetoken_context_def authorize_all_def exists_domain_def domain_d1_def)
  from issuetoken_empty_names [OF h] show ?thesis
    using h by (simp add: issuetoken_context_def)
qed

end
